theory Spec2Isabelle
  imports Complex_Main
begin

section \<open>Nightblade-Runner: the gameplay core\<close>

text \<open>
  A shallow embedding of \<^verbatim>\<open>entities/player.py\<close>, \<^verbatim>\<open>entities/enemy.py\<close>,
  \<^verbatim>\<open>utils/particle_system.py\<close>, \<^verbatim>\<open>utils/helpers.py\<close> and
  \<^verbatim>\<open>scenes/game_scene.py\<close>.

  Conventions. Python floats are modelled as \<^typ>\<open>real\<close> (rounding is not modelled),
  Python ints as \<^typ>\<open>int\<close>. Objects are records and every method takes the object and
  returns the updated one. The keyboard snapshot, the frame time \<open>dt\<close> and every value
  drawn from \<^verbatim>\<open>random\<close> are inputs of the function that consumes them. Drawing code and
  sprite loading do not touch the simulation state and are left out.
\<close>

subsection \<open>Constants (\<^verbatim>\<open>utils/constants.py\<close>)\<close>

definition WINDOW_WIDTH :: int where "WINDOW_WIDTH = 1024"
definition WINDOW_HEIGHT :: int where "WINDOW_HEIGHT = 768"

definition PLAYER_WIDTH :: int where "PLAYER_WIDTH = 96"
definition PLAYER_HEIGHT :: int where "PLAYER_HEIGHT = 96"
definition PLAYER_SPEED :: int where "PLAYER_SPEED = 5"
definition PLAYER_JUMP_STRENGTH :: int where "PLAYER_JUMP_STRENGTH = - 15"
definition PLAYER_GRAVITY :: real where "PLAYER_GRAVITY = 0.8"
definition PLAYER_GROUND_Y :: int where "PLAYER_GROUND_Y = WINDOW_HEIGHT - PLAYER_HEIGHT - 50"

definition ENEMY_WIDTH :: int where "ENEMY_WIDTH = 96"
definition ENEMY_HEIGHT :: int where "ENEMY_HEIGHT = 96"
definition ENEMY_BASE_SPEED :: real where "ENEMY_BASE_SPEED = 1.0"

definition ATTACK_RANGE :: int where "ATTACK_RANGE = 10"
definition ATTACK_COOLDOWN :: int where "ATTACK_COOLDOWN = 800"
definition PLAYER_HEALTH :: int where "PLAYER_HEALTH = 100"

type_synonym color = "nat \<times> nat \<times> nat"

definition WHITE :: color where "WHITE = (255, 255, 255)"
definition RED :: color where "RED = (255, 0, 0)"
definition GREEN :: color where "GREEN = (0, 255, 0)"

definition SAVEGAME_PATH :: string where "SAVEGAME_PATH = ''data/savegame.json''"

subsection \<open>Library values: \<^verbatim>\<open>int()\<close>, \<^verbatim>\<open>pygame.Rect\<close>, the key snapshot\<close>

text \<open>Python's \<^verbatim>\<open>int(x)\<close> on a float truncates toward zero.\<close>

definition py_int :: "real \<Rightarrow> int" where
  "py_int x = (if 0 \<le> x then \<lfloor>x\<rfloor> else \<lceil>x\<rceil>)"

record Rect =
  rect_x :: int
  rect_y :: int
  rect_width :: int
  rect_height :: int

text \<open>
  \<^verbatim>\<open>pygame.Rect.colliderect\<close>: the axis-aligned overlap test; rectangles that only touch
  along an edge do not collide. All rectangles of the game have positive width and height.
\<close>

definition colliderect :: "Rect \<Rightarrow> Rect \<Rightarrow> bool" where
  "colliderect a b \<longleftrightarrow>
     rect_x a < rect_x b + rect_width b \<and> rect_x b < rect_x a + rect_width a \<and>
     rect_y a < rect_y b + rect_height b \<and> rect_y b < rect_y a + rect_height a"

text \<open>\<^verbatim>\<open>helpers.check_collision\<close>.\<close>

definition check_collision :: "Rect \<Rightarrow> Rect \<Rightarrow> bool" where
  "check_collision rect1 rect2 = colliderect rect1 rect2"

text \<open>The keys of \<^verbatim>\<open>pygame.key.get_pressed()\<close> that the game reads.\<close>

record Keys =
  K_SPACE :: bool
  K_x :: bool
  K_LSHIFT :: bool
  K_RSHIFT :: bool
  K_LEFT :: bool
  K_a :: bool
  K_RIGHT :: bool
  K_d :: bool
  K_UP :: bool
  K_w :: bool

definition no_keys :: Keys where
  "no_keys = \<lparr>K_SPACE = False, K_x = False, K_LSHIFT = False, K_RSHIFT = False,
     K_LEFT = False, K_a = False, K_RIGHT = False, K_d = False, K_UP = False, K_w = False\<rparr>"

subsection \<open>Player (\<^verbatim>\<open>entities/player.py\<close>)\<close>

datatype anim = Idle | Run | Jump

record Player =
  p_x :: real
  p_y :: real
  p_velocity_x :: real
  p_velocity_y :: real
  p_on_ground :: bool
  p_state :: anim
  p_facing_right :: bool
  p_health :: int
  p_max_health :: int
  p_attack_cooldown :: real
  p_dash_cooldown :: real
  p_dash_time :: real
  p_is_dashing :: bool
  p_dash_speed :: real
  p_rect :: Rect
  p_animation_frame :: real

text \<open>\<^verbatim>\<open>Player.__init__\<close>.\<close>

definition Player_init :: "int \<Rightarrow> int \<Rightarrow> Player" where
  "Player_init x y =
     \<lparr>p_x = real_of_int x, p_y = real_of_int y, p_velocity_x = 0, p_velocity_y = 0,
      p_on_ground = False, p_state = Idle, p_facing_right = True,
      p_health = PLAYER_HEALTH, p_max_health = PLAYER_HEALTH, p_attack_cooldown = 0,
      p_dash_cooldown = 0, p_dash_time = 0, p_is_dashing = False,
      p_dash_speed = real_of_int PLAYER_SPEED * 2.5,
      p_rect = \<lparr>rect_x = py_int (real_of_int x), rect_y = py_int (real_of_int y),
                rect_width = PLAYER_WIDTH, rect_height = PLAYER_HEIGHT\<rparr>,
      p_animation_frame = 0\<rparr>"

text \<open>\<^verbatim>\<open>Player.start_dash\<close>.\<close>

definition start_dash :: "Player \<Rightarrow> Player" where
  "start_dash p = p\<lparr>p_is_dashing := True, p_dash_time := 200, p_dash_cooldown := 1000\<rparr>"

text \<open>
  \<^verbatim>\<open>Player.update\<close>, lines 82 to 90: the dash cooldown runs down while it is positive;
  a running dash loses \<open>dt * 1000\<close> and ends, with the horizontal velocity zeroed, once
  its time is used up.
\<close>

definition update_dash_timers :: "real \<Rightarrow> Player \<Rightarrow> Player" where
  "update_dash_timers dt p0 =
     (let p1 = (if p_dash_cooldown p0 > 0
                then p0\<lparr>p_dash_cooldown := p_dash_cooldown p0 - dt * 1000\<rparr> else p0)
      in if p_is_dashing p1
         then (let p2 = p1\<lparr>p_dash_time := p_dash_time p1 - dt * 1000\<rparr>
               in if p_dash_time p2 \<le> 0
                  then p2\<lparr>p_is_dashing := False, p_velocity_x := 0\<rparr> else p2)
         else p1)"

text \<open>Lines 92 to 94: the dash input.\<close>

definition handle_dash_input :: "Keys \<Rightarrow> Player \<Rightarrow> Player" where
  "handle_dash_input keys p =
     (if (K_LSHIFT keys \<or> K_RSHIFT keys) \<and> p_dash_cooldown p \<le> 0 \<and> \<not> p_is_dashing p
      then start_dash p else p)"

text \<open>Lines 97 to 110: the dash overrides movement and the method returns early.\<close>

definition dash_movement :: "real \<Rightarrow> Player \<Rightarrow> Player" where
  "dash_movement dt p0 =
     (let p1 = p0\<lparr>p_velocity_x := (if p_facing_right p0 then p_dash_speed p0
                                      else - p_dash_speed p0),
                  p_velocity_y := 0\<rparr>;
          p2 = p1\<lparr>p_x := p_x p1 + p_velocity_x p1 * dt\<rparr>;
          p3 = p2\<lparr>p_x := max 0 (min (p_x p2) (real_of_int (WINDOW_WIDTH - PLAYER_WIDTH)))\<rparr>
      in p3\<lparr>p_rect := (p_rect p3)\<lparr>rect_x := py_int (p_x p3), rect_y := py_int (p_y p3)\<rparr>\<rparr>)"

text \<open>
  Lines 112 to 167, the normal movement, one definition for each commented block of the
  method, in the order the method runs them.
\<close>

text \<open>Lines 114 to 130: the horizontal velocity is reset, then set from the keys.\<close>

definition handle_horizontal :: "Keys \<Rightarrow> Player \<Rightarrow> Player" where
  "handle_horizontal keys p0 =
     (let p1 = p0\<lparr>p_velocity_x := 0\<rparr>
      in if K_LEFT keys \<or> K_a keys
         then (let q = p1\<lparr>p_velocity_x := - real_of_int PLAYER_SPEED,
                           p_facing_right := False\<rparr>
               in if p_on_ground q then q\<lparr>p_state := Run\<rparr> else q)
         else if K_RIGHT keys \<or> K_d keys
         then (let q = p1\<lparr>p_velocity_x := real_of_int PLAYER_SPEED,
                           p_facing_right := True\<rparr>
               in if p_on_ground q then q\<lparr>p_state := Run\<rparr> else q)
         else (if p_on_ground p1 then p1\<lparr>p_state := Idle\<rparr> else p1))"

text \<open>Lines 132 to 136: jumping.\<close>

definition handle_jump :: "Keys \<Rightarrow> Player \<Rightarrow> Player" where
  "handle_jump keys p =
     (if (K_UP keys \<or> K_w keys) \<and> p_on_ground p
      then p\<lparr>p_velocity_y := real_of_int PLAYER_JUMP_STRENGTH,
              p_on_ground := False, p_state := Jump\<rparr>
      else p)"

text \<open>Lines 138 to 141: gravity.\<close>

definition apply_gravity :: "Player \<Rightarrow> Player" where
  "apply_gravity p =
     (if \<not> p_on_ground p
      then p\<lparr>p_velocity_y := p_velocity_y p + PLAYER_GRAVITY, p_state := Jump\<rparr>
      else p)"

text \<open>Lines 143 to 145: the position.\<close>

definition update_position :: "real \<Rightarrow> Player \<Rightarrow> Player" where
  "update_position dt p =
     p\<lparr>p_x := p_x p + p_velocity_x p * dt, p_y := p_y p + p_velocity_y p * dt\<rparr>"

text \<open>Lines 147 to 153: the ground.\<close>

definition ground_collision :: "Player \<Rightarrow> Player" where
  "ground_collision p =
     (if p_y p \<ge> real_of_int PLAYER_GROUND_Y
      then (let q = p\<lparr>p_y := real_of_int PLAYER_GROUND_Y, p_velocity_y := 0,
                       p_on_ground := True\<rparr>
            in if p_state q = Jump then q\<lparr>p_state := Idle\<rparr> else q)
      else p)"

text \<open>Lines 155 to 160: the player is kept on screen and the rectangle follows.\<close>

definition keep_on_screen :: "Player \<Rightarrow> Player" where
  "keep_on_screen p =
     (let q = p\<lparr>p_x := max 0 (min (p_x p) (real_of_int (WINDOW_WIDTH - PLAYER_WIDTH)))\<rparr>
      in q\<lparr>p_rect := (p_rect q)\<lparr>rect_x := py_int (p_x q), rect_y := py_int (p_y q)\<rparr>\<rparr>)"

text \<open>Lines 162 to 167: the attack cooldown and the animation frame.\<close>

definition update_attack_cooldown :: "real \<Rightarrow> Player \<Rightarrow> Player" where
  "update_attack_cooldown dt p =
     (let q = (if p_attack_cooldown p > 0
               then p\<lparr>p_attack_cooldown := p_attack_cooldown p - dt * 1000\<rparr> else p)
      in q\<lparr>p_animation_frame := p_animation_frame q + dt * 10\<rparr>)"

definition normal_movement :: "Keys \<Rightarrow> real \<Rightarrow> Player \<Rightarrow> Player" where
  "normal_movement keys dt p =
     update_attack_cooldown dt
       (keep_on_screen
         (ground_collision
           (update_position dt
             (apply_gravity
               (handle_jump keys
                 (handle_horizontal keys p))))))"

text \<open>\<^verbatim>\<open>Player.update\<close>.\<close>

definition Player_update :: "Keys \<Rightarrow> real \<Rightarrow> Player \<Rightarrow> Player" where
  "Player_update keys dt p0 =
     (let p1 = handle_dash_input keys (update_dash_timers dt p0)
      in if p_is_dashing p1 then dash_movement dt p1 else normal_movement keys dt p1)"

text \<open>\<^verbatim>\<open>Player.attack\<close>: the returned flag and the player after the call.\<close>

definition attack :: "Player \<Rightarrow> bool \<times> Player" where
  "attack p =
     (if p_attack_cooldown p \<le> 0
      then (True, p\<lparr>p_attack_cooldown := real_of_int ATTACK_COOLDOWN\<rparr>)
      else (False, p))"

text \<open>\<^verbatim>\<open>Player.get_attack_rect\<close>.\<close>

definition get_attack_rect :: "Player \<Rightarrow> Rect" where
  "get_attack_rect p =
     (let attack_x = (if p_facing_right p then p_x p + real_of_int PLAYER_WIDTH
                      else p_x p - real_of_int ATTACK_RANGE);
          attack_y = p_y p
      in \<lparr>rect_x = py_int attack_x, rect_y = py_int attack_y,
          rect_width = ATTACK_RANGE, rect_height = PLAYER_HEIGHT\<rparr>)"

text \<open>\<^verbatim>\<open>Player.take_damage\<close> and \<^verbatim>\<open>Player.is_alive\<close>.\<close>

definition take_damage :: "int \<Rightarrow> Player \<Rightarrow> Player" where
  "take_damage amount p =
     (if p_is_dashing p then p
      else (let q = p\<lparr>p_health := p_health p - amount\<rparr>
            in if p_health q < 0 then q\<lparr>p_health := 0\<rparr> else q))"

definition is_alive :: "Player \<Rightarrow> bool" where
  "is_alive p \<longleftrightarrow> p_health p > 0"

subsection \<open>Enemy (\<^verbatim>\<open>entities/enemy.py\<close>)\<close>

record Enemy =
  e_x :: real
  e_y :: real
  e_velocity_x :: real
  e_velocity_y :: real
  e_on_ground :: bool
  e_speed :: real
  e_detection_range :: real
  e_attack_range :: real
  e_state :: anim
  e_facing_right :: bool
  e_health :: int
  e_attack_cooldown :: real
  e_rect :: Rect
  e_animation_frame :: real

text \<open>\<^verbatim>\<open>Enemy.__init__\<close>, called with an explicit speed by the scene.\<close>

definition Enemy_init :: "int \<Rightarrow> int \<Rightarrow> real \<Rightarrow> Enemy" where
  "Enemy_init x y speed =
     \<lparr>e_x = real_of_int x, e_y = real_of_int y, e_velocity_x = 0, e_velocity_y = 0,
      e_on_ground = False, e_speed = speed, e_detection_range = 3000, e_attack_range = 60,
      e_state = Idle, e_facing_right = True, e_health = 1, e_attack_cooldown = 0,
      e_rect = \<lparr>rect_x = py_int (real_of_int x), rect_y = py_int (real_of_int y),
                rect_width = ENEMY_WIDTH, rect_height = ENEMY_HEIGHT\<rparr>,
      e_animation_frame = 0\<rparr>"

text \<open>\<^verbatim>\<open>Enemy.update\<close>, lines 84 to 111: the pursuit of the player's \<open>x\<close>.\<close>

definition pursue :: "real \<Rightarrow> Enemy \<Rightarrow> Enemy" where
  "pursue player_x e0 =
     (let distance_to_player = \<bar>e_x e0 - player_x\<bar>;
          e1 = e0\<lparr>e_velocity_x := 0\<rparr>
      in if distance_to_player < e_detection_range e1
         then (if e_x e1 < player_x
               then (let q = e1\<lparr>e_velocity_x := e_speed e1, e_facing_right := True\<rparr>
                     in if e_on_ground q then q\<lparr>e_state := Run\<rparr> else q)
               else if e_x e1 > player_x
               then (let q = e1\<lparr>e_velocity_x := - e_speed e1, e_facing_right := False\<rparr>
                     in if e_on_ground q then q\<lparr>e_state := Run\<rparr> else q)
               else (if e_on_ground e1 then e1\<lparr>e_state := Idle\<rparr> else e1))
         else (if e_on_ground e1 then e1\<lparr>e_state := Idle\<rparr> else e1))"

text \<open>Lines 113 to 132: the enemy stays on the ground line and on screen.\<close>

definition settle :: "real \<Rightarrow> Enemy \<Rightarrow> Enemy" where
  "settle dt e0 =
     (let e1 = e0\<lparr>e_velocity_y := 0, e_on_ground := True\<rparr>;
          e2 = e1\<lparr>e_x := e_x e1 + e_velocity_x e1 * dt\<rparr>;
          e3 = e2\<lparr>e_y := real_of_int PLAYER_GROUND_Y\<rparr>;
          e4 = e3\<lparr>e_x := max 0 (min (e_x e3) (real_of_int (WINDOW_WIDTH - ENEMY_WIDTH)))\<rparr>;
          e5 = e4\<lparr>e_rect := (e_rect e4)\<lparr>rect_x := py_int (e_x e4),
                                          rect_y := py_int (e_y e4)\<rparr>\<rparr>
      in e5\<lparr>e_animation_frame := e_animation_frame e5 + dt * 10\<rparr>)"

text \<open>\<^verbatim>\<open>Enemy.update\<close>.\<close>

definition Enemy_update :: "real \<times> real \<Rightarrow> real \<Rightarrow> Enemy \<Rightarrow> Enemy" where
  "Enemy_update player_pos dt e = settle dt (pursue (fst player_pos) e)"

text \<open>\<^verbatim>\<open>Enemy.take_damage\<close> and \<^verbatim>\<open>Enemy.is_alive\<close>.\<close>

definition enemy_take_damage :: "int \<Rightarrow> Enemy \<Rightarrow> Enemy" where
  "enemy_take_damage amount e =
     (let q = e\<lparr>e_health := e_health e - amount\<rparr>
      in if e_health q < 0 then q\<lparr>e_health := 0\<rparr> else q)"

definition enemy_is_alive :: "Enemy \<Rightarrow> bool" where
  "enemy_is_alive e \<longleftrightarrow> e_health e > 0"

subsection \<open>Particles (\<^verbatim>\<open>utils/particle_system.py\<close>)\<close>

record Particle =
  pt_x :: real
  pt_y :: real
  pt_color :: color
  pt_velocity_x :: real
  pt_velocity_y :: real
  pt_lifetime :: real
  pt_max_lifetime :: real
  pt_size :: int
  pt_gravity :: real

definition Particle_init ::
  "real \<Rightarrow> real \<Rightarrow> color \<Rightarrow> real \<times> real \<Rightarrow> real \<Rightarrow> int \<Rightarrow> Particle" where
  "Particle_init x y color velocity lifetime sz =
     \<lparr>pt_x = x, pt_y = y, pt_color = color, pt_velocity_x = fst velocity,
      pt_velocity_y = snd velocity, pt_lifetime = lifetime, pt_max_lifetime = lifetime,
      pt_size = sz, pt_gravity = 0.2\<rparr>"

text \<open>\<^verbatim>\<open>Particle.update\<close>: the vertical step uses the velocity before gravity is added.\<close>

definition particle_update :: "real \<Rightarrow> Particle \<Rightarrow> Particle" where
  "particle_update dt p =
     p\<lparr>pt_x := pt_x p + pt_velocity_x p * dt,
       pt_y := pt_y p + pt_velocity_y p * dt,
       pt_velocity_y := pt_velocity_y p + pt_gravity p * dt,
       pt_lifetime := pt_lifetime p - dt * 10\<rparr>"

datatype burst_type = Blood | Dust | Explosion

text \<open>
  The values one iteration of \<^verbatim>\<open>ParticleSystem.emit\<close> draws from \<^verbatim>\<open>random\<close> and uses:
  the two velocity components, the lifetime and the size (the angle and the magnitude it
  also draws are never used). A burst reads its draws from a function of the iteration
  index.
\<close>

record particle_draw =
  draw_vx :: real
  draw_vy :: real
  draw_lifetime :: real
  draw_size :: int

text \<open>\<^verbatim>\<open>ParticleSystem.emit\<close>: the particles appended by one call, in order.\<close>

definition emit ::
  "(nat \<Rightarrow> particle_draw) \<Rightarrow> real \<Rightarrow> real \<Rightarrow> nat \<Rightarrow> color \<Rightarrow> real \<Rightarrow> burst_type \<Rightarrow> Particle list"
  where
  "emit draws x y count color speed type =
     map (\<lambda>i. Particle_init x y color (draw_vx (draws i), draw_vy (draws i))
                 (draw_lifetime (draws i)) (draw_size (draws i)))
         [0..<count]"

text \<open>\<^verbatim>\<open>ParticleSystem.update\<close>.\<close>

definition particles_update :: "real \<Rightarrow> Particle list \<Rightarrow> Particle list" where
  "particles_update dt ps = filter (\<lambda>p. pt_lifetime p > 0) (map (particle_update dt) ps)"

subsection \<open>The scene state (\<^verbatim>\<open>GameScene.__init__\<close>)\<close>

text \<open>
  The three values \<^verbatim>\<open>_spawn_single_enemy\<close> draws: \<^verbatim>\<open>random.uniform(0.8, 1.3)\<close>,
  \<^verbatim>\<open>random.choice([0, 1])\<close> and \<^verbatim>\<open>random.randint(600, 1000)\<close>.
\<close>

record spawn_draw =
  speed_variance :: real
  side :: int
  spawn_distance :: int

text \<open>
  Everything one call of \<^verbatim>\<open>GameScene.update\<close> can draw from \<^verbatim>\<open>random\<close>, one field for
  each place that draws: the dash-dust roll and its burst, the blood and heal bursts and
  the replacement spawn of a kill, the burst of a hit on the player, and the periodic
  spawn.
\<close>

record frame_random =
  dash_roll :: real
  dash_draws :: "nat \<Rightarrow> particle_draw"
  blood_draws :: "nat \<Rightarrow> particle_draw"
  heal_draws :: "nat \<Rightarrow> particle_draw"
  kill_spawn :: spawn_draw
  hit_draws :: "nat \<Rightarrow> particle_draw"
  maintain_spawn :: spawn_draw

record GameScene =
  player :: "Player option"
  enemies :: "Enemy list"
  score :: int
  max_enemies_on_screen :: int
  spawn_timer :: real
  spawn_interval :: real
  particle_system :: "Particle list"
  screen_shake :: real
  hit_stop_duration :: int
  combo_count :: int
  combo_timer :: real
  combo_timeout :: real
  paused :: bool
  game_over :: bool

definition GameScene_init :: GameScene where
  "GameScene_init =
     \<lparr>player = None, enemies = [], score = 0, max_enemies_on_screen = 5, spawn_timer = 0,
      spawn_interval = 2000, particle_system = [], screen_shake = 0, hit_stop_duration = 0,
      combo_count = 0, combo_timer = 0, combo_timeout = 3000, paused = False,
      game_over = False\<rparr>"

subsection \<open>Spawning (\<^verbatim>\<open>_spawn_single_enemy\<close>, \<^verbatim>\<open>_maintain_enemies\<close>)\<close>

text \<open>The enemy \<^verbatim>\<open>_spawn_single_enemy\<close> builds (lines 128 to 157).\<close>

definition new_enemy :: "spawn_draw \<Rightarrow> GameScene \<Rightarrow> Enemy" where
  "new_enemy draw s =
     (let base_speed_multiplier = 1 + real_of_int (score s div 10) * 0.1;
          enemy_speed = ENEMY_BASE_SPEED * base_speed_multiplier * speed_variance draw;
          player_x = (case player s of Some p \<Rightarrow> py_int (p_x p)
                      | None \<Rightarrow> WINDOW_WIDTH div 2);
          spawn_x = (if side draw = 0 then player_x - spawn_distance draw
                     else player_x + spawn_distance draw);
          spawn_y = PLAYER_GROUND_Y
      in Enemy_init spawn_x spawn_y enemy_speed)"

definition spawn_single_enemy :: "spawn_draw \<Rightarrow> GameScene \<Rightarrow> GameScene" where
  "spawn_single_enemy draw s = s\<lparr>enemies := enemies s @ [new_enemy draw s]\<rparr>"

definition maintain_enemies :: "spawn_draw \<Rightarrow> GameScene \<Rightarrow> GameScene" where
  "maintain_enemies draw s =
     (if int (length (enemies s)) < max_enemies_on_screen s
      then spawn_single_enemy draw s else s)"

subsection \<open>\<^verbatim>\<open>GameScene.update\<close>\<close>

text \<open>Lines 181 to 193: screen shake decay, combo timer, particles.\<close>

definition tick_effects :: "real \<Rightarrow> GameScene \<Rightarrow> GameScene" where
  "tick_effects dt s0 =
     (let s1 = (if screen_shake s0 > 0
                then (let q = s0\<lparr>screen_shake := screen_shake s0 - dt * 20\<rparr>
                      in if screen_shake q < 0 then q\<lparr>screen_shake := 0\<rparr> else q)
                else s0);
          s2 = (if combo_count s1 > 0
                then (let q = s1\<lparr>combo_timer := combo_timer s1 - dt * 1000\<rparr>
                      in if combo_timer q \<le> 0 then q\<lparr>combo_count := 0\<rparr> else q)
                else s1)
      in s2\<lparr>particle_system := particles_update dt (particle_system s2)\<rparr>)"

text \<open>
  Lines 215 to 239, the body run for the enemy the attack lands on: \<open>seen\<close> are the
  enemies before it in the list, \<open>rest\<close> those after it, \<open>p\<close> the player.
\<close>

definition resolve_hit ::
  "frame_random \<Rightarrow> Player \<Rightarrow> Enemy list \<Rightarrow> Enemy \<Rightarrow> Enemy list \<Rightarrow> GameScene \<Rightarrow> GameScene"
  where
  "resolve_hit rnd p seen enemy rest s0 =
     (let enemy' = enemy_take_damage 1 enemy;
          s1 = s0\<lparr>enemies := seen @ enemy' # rest\<rparr>
      in if \<not> enemy_is_alive enemy'
         then (let s2 = s1\<lparr>score := score s1 + 1\<rparr>;
                   s3 = s2\<lparr>screen_shake := 10\<rparr>;
                   s4 = s3\<lparr>particle_system := particle_system s3 @
                          emit (blood_draws rnd)
                            (e_x enemy' + real_of_int (rect_width (e_rect enemy') div 2))
                            (e_y enemy' + real_of_int (rect_height (e_rect enemy') div 2))
                            20 RED 8 Blood\<rparr>;
                   s5 = s4\<lparr>hit_stop_duration := 3\<rparr>;
                   s6 = s5\<lparr>combo_count := combo_count s5 + 1,
                           combo_timer := combo_timeout s5\<rparr>;
                   s7 = (if score s6 > 0 \<and> score s6 mod 10 = 0
                         then s6\<lparr>player := Some (p\<lparr>p_health :=
                                       min (p_max_health p) (p_health p + 10)\<rparr>),
                                 particle_system := particle_system s6 @
                                   emit (heal_draws rnd) (p_x p) (p_y p) 15 GREEN 4 Dust\<rparr>
                         else s6)
               in spawn_single_enemy (kill_spawn rnd) s7)
         else s1)"

text \<open>
  Lines 213 to 239, the loop over \<^verbatim>\<open>self.enemies\<close>: it stops (\<^verbatim>\<open>break\<close>) at the first live
  enemy whose rectangle the attack rectangle overlaps.
\<close>

fun attack_enemies ::
  "frame_random \<Rightarrow> Player \<Rightarrow> Enemy list \<Rightarrow> Enemy list \<Rightarrow> GameScene \<Rightarrow> GameScene" where
  "attack_enemies rnd p seen [] s = s"
| "attack_enemies rnd p seen (enemy # rest) s =
     (if enemy_is_alive enemy \<and> check_collision (get_attack_rect p) (e_rect enemy)
      then resolve_hit rnd p seen enemy rest s
      else attack_enemies rnd p (seen @ [enemy]) rest s)"

text \<open>Lines 202 to 207: the dust of a dash, for the updated player \<open>p\<close>.\<close>

definition dash_dust :: "frame_random \<Rightarrow> Player \<Rightarrow> GameScene \<Rightarrow> GameScene" where
  "dash_dust rnd p s =
     (if p_is_dashing p \<and> dash_roll rnd < 0.3
      then s\<lparr>particle_system := particle_system s @
             emit (dash_draws rnd) (p_x p + 20) (p_y p + 40) 2 WHITE 1 Dust\<rparr>
      else s)"

text \<open>Lines 209 to 239: the attack, for the updated player \<open>p\<close>.\<close>

definition handle_attack :: "Keys \<Rightarrow> frame_random \<Rightarrow> Player \<Rightarrow> GameScene \<Rightarrow> GameScene" where
  "handle_attack keys rnd p s =
     (if K_SPACE keys \<or> K_x keys
      then (let performed = fst (attack p);
                p' = snd (attack p);
                s' = s\<lparr>player := Some p'\<rparr>
            in if performed then attack_enemies rnd p' [] (enemies s') s' else s')
      else s)"

text \<open>Lines 198 to 239: the player's update, the dash dust and the attack.\<close>

definition player_phase :: "Keys \<Rightarrow> frame_random \<Rightarrow> real \<Rightarrow> GameScene \<Rightarrow> GameScene" where
  "player_phase keys rnd dt s =
     (case player s of
        None \<Rightarrow> s
      | Some p0 \<Rightarrow>
          if \<not> is_alive p0 then s
          else (let p1 = Player_update keys dt p0
                in handle_attack keys rnd p1 (dash_dust rnd p1 (s\<lparr>player := Some p1\<rparr>))))"

text \<open>
  Lines 249 to 259, an enemy touching the player: the player and the scene after the
  contact.
\<close>

definition player_contact :: "frame_random \<Rightarrow> Player \<times> GameScene \<Rightarrow> Player \<times> GameScene" where
  "player_contact rnd ps =
     (let p = fst ps; s = snd ps
      in if p_attack_cooldown p \<le> 0 \<and> \<not> p_is_dashing p
         then (let p1 = take_damage 1 p;
                   p2 = p1\<lparr>p_attack_cooldown := 1200\<rparr>;
                   s1 = s\<lparr>screen_shake := 5\<rparr>;
                   s2 = s1\<lparr>particle_system := particle_system s1 @
                          emit (hit_draws rnd) (p_x p2) (p_y p2) 5 RED 3 Explosion\<rparr>
               in (p2, s2\<lparr>combo_count := 0\<rparr>))
         else (p, s))"

text \<open>
  Lines 244 to 259, the loop over \<^verbatim>\<open>self.enemies\<close>: the updated enemies, the player and
  the scene.
\<close>

fun update_enemies ::
  "frame_random \<Rightarrow> real \<Rightarrow> real \<times> real \<Rightarrow> Enemy list \<Rightarrow> Player \<times> GameScene \<Rightarrow>
     Enemy list \<times> Player \<times> GameScene" where
  "update_enemies rnd dt player_pos [] ps = ([], ps)"
| "update_enemies rnd dt player_pos (enemy # rest) ps =
     (if enemy_is_alive enemy
      then (let enemy' = Enemy_update player_pos dt enemy;
                ps' = (if check_collision (e_rect enemy') (p_rect (fst ps))
                       then player_contact rnd ps else ps);
                r = update_enemies rnd dt player_pos rest ps'
            in (enemy' # fst r, snd r))
      else (let r = update_enemies rnd dt player_pos rest ps
            in (enemy # fst r, snd r)))"

text \<open>Lines 241 to 259.\<close>

definition enemy_phase :: "frame_random \<Rightarrow> real \<Rightarrow> GameScene \<Rightarrow> GameScene" where
  "enemy_phase rnd dt s =
     (case player s of
        None \<Rightarrow> s
      | Some p \<Rightarrow>
          if \<not> is_alive p then s
          else (let player_pos = (p_x p, p_y p);
                    r = update_enemies rnd dt player_pos (enemies s) (p, s)
                in (snd (snd r))\<lparr>enemies := fst r, player := Some (fst (snd r))\<rparr>))"

text \<open>
  The call \<^verbatim>\<open>save_savegame(filepath, level, player_health, enemies_defeated)\<close> a frame
  issues, as a value.
\<close>

type_synonym save_call = "string \<times> int \<times> int \<times> int"

text \<open>Lines 261 to 272: dead enemies are dropped; the periodic spawn timer.\<close>

definition periodic_spawn :: "frame_random \<Rightarrow> real \<Rightarrow> GameScene \<Rightarrow> GameScene" where
  "periodic_spawn rnd dt s0 =
     (let s1 = s0\<lparr>enemies := filter enemy_is_alive (enemies s0)\<rparr>;
          s2 = s1\<lparr>spawn_timer := spawn_timer s1 + dt * 10\<rparr>
      in if spawn_timer s2 > spawn_interval s2
         then (let s3 = maintain_enemies (maintain_spawn rnd) s2;
                   s4 = s3\<lparr>spawn_timer := 0\<rparr>;
                   target_enemies = 3 + score s4 div 5
               in s4\<lparr>max_enemies_on_screen := min target_enemies 10\<rparr>)
         else s2)"

text \<open>Lines 274 to 278: game over and the save it triggers.\<close>

definition check_game_over :: "GameScene \<Rightarrow> GameScene \<times> save_call option" where
  "check_game_over s =
     (case player s of
        None \<Rightarrow> (s, None)
      | Some p \<Rightarrow>
          if \<not> is_alive p
          then (s\<lparr>game_over := True\<rparr>, Some (SAVEGAME_PATH, 0, 100, score s))
          else (s, None))"

text \<open>
  \<^verbatim>\<open>GameScene.update\<close>: the scene after the frame and the save it issued. The method
  returns \<^verbatim>\<open>(None, None)\<close> on every path, so the returned transition is not modelled.
\<close>

definition update ::
  "Keys \<Rightarrow> frame_random \<Rightarrow> real \<Rightarrow> GameScene \<Rightarrow> GameScene \<times> save_call option" where
  "update keys rnd dt s =
     (if paused s \<or> game_over s then (s, None)
      else if hit_stop_duration s > 0
      then (s\<lparr>hit_stop_duration := hit_stop_duration s - 1\<rparr>, None)
      else check_game_over
             (periodic_spawn rnd dt
               (enemy_phase rnd dt
                 (player_phase keys rnd dt
                   (tick_effects dt s)))))"

subsection \<open>\<^verbatim>\<open>GameScene.start\<close> and \<^verbatim>\<open>GameScene.handle_event\<close>\<close>

text \<open>
  \<^verbatim>\<open>GameScene.start\<close> for an action other than \<^verbatim>\<open>"continue"\<close>, which is how
  \<^verbatim>\<open>handle_event\<close> calls it. The initial \<^verbatim>\<open>_maintain_enemies\<close> draws one spawn.
\<close>

definition start_new_game :: "spawn_draw \<Rightarrow> GameScene \<Rightarrow> GameScene" where
  "start_new_game draw s0 =
     (let s1 = s0\<lparr>paused := False, game_over := False, screen_shake := 0, combo_count := 0\<rparr>;
          s2 = s1\<lparr>score := 0\<rparr>;
          player_start_x = WINDOW_WIDTH div 2;
          player_start_y = PLAYER_GROUND_Y;
          s3 = s2\<lparr>player := Some (Player_init player_start_x player_start_y)\<rparr>;
          s4 = s3\<lparr>enemies := []\<rparr>
      in maintain_enemies draw s4)"

datatype key = K_ESCAPE | K_r | K_other

datatype event = KEYDOWN key | OTHER_EVENT

text \<open>
  \<^verbatim>\<open>GameScene.handle_event\<close>: the scene after the event and the first component of the
  returned pair, the name of the scene to change to (the second is always \<^verbatim>\<open>None\<close>).
\<close>

definition handle_event :: "spawn_draw \<Rightarrow> event \<Rightarrow> GameScene \<Rightarrow> GameScene \<times> string option"
  where
  "handle_event draw ev s0 =
     (case ev of
        KEYDOWN k \<Rightarrow>
          (let s1 = (if k = K_ESCAPE then s0\<lparr>paused := \<not> paused s0\<rparr> else s0)
           in if k = K_ESCAPE \<and> paused s1 then (s1, Some ''main_menu'')
              else if game_over s1 \<and> k = K_r then (start_new_game draw s1, None)
              else (s1, None))
      | OTHER_EVENT \<Rightarrow> (s0, None))"

subsection \<open>Loading the save file (\<^verbatim>\<open>helpers.load_savegame\<close>)\<close>

text \<open>A value \<^verbatim>\<open>json.load\<close> can return.\<close>

datatype json =
  JNull | JBool bool | JInt int | JFloat real | JString string
  | JArray "json list" | JObject "(string \<times> json) list"

text \<open>
  The exceptions that opening, reading and parsing a file raise. \<^verbatim>\<open>IOError\<close> is Python 3's
  alias of \<^verbatim>\<open>OSError\<close>. \<^verbatim>\<open>JSONDecodeError\<close> and \<^verbatim>\<open>UnicodeDecodeError\<close> are unrelated
  subclasses of \<^verbatim>\<open>ValueError\<close>.
\<close>

datatype py_exception = OSError | JSONDecodeError | UnicodeDecodeError

text \<open>
  What is at a path that exists: something \<^verbatim>\<open>open\<close> or \<^verbatim>\<open>read\<close> fails on with an
  \<^verbatim>\<open>OSError\<close> (a directory, a file without read permission), a file whose bytes are
  not text in the encoding of the text-mode \<^verbatim>\<open>open(filepath, 'r')\<close>, for which
  \<^verbatim>\<open>read\<close> raises \<^verbatim>\<open>UnicodeDecodeError\<close>, or a file holding a text. A file system
  maps the paths that exist to what is there.
\<close>

datatype file_contents = Unreadable | Undecodable | Text string

type_synonym filesystem = "string \<rightharpoonup> file_contents"

text \<open>
  \<^verbatim>\<open>json.load(f)\<close> on the file opened by \<^verbatim>\<open>open(filepath, 'r')\<close>. The parser of the
  standard library is the parameter \<open>json_loads\<close>: the value it returns for a text, or
  \<open>None\<close> where it raises \<^verbatim>\<open>JSONDecodeError\<close>.
\<close>

definition json_load ::
  "(string \<Rightarrow> json option) \<Rightarrow> file_contents \<Rightarrow> py_exception + json" where
  "json_load json_loads f =
     (case f of
        Unreadable \<Rightarrow> Inl OSError
      | Undecodable \<Rightarrow> Inl UnicodeDecodeError
      | Text t \<Rightarrow> (case json_loads t of None \<Rightarrow> Inl JSONDecodeError | Some data \<Rightarrow> Inr data))"

definition default_save :: json where
  "default_save =
     JObject [(''level'', JInt 0), (''player_health'', JInt 100), (''enemies_defeated'', JInt 0)]"

text \<open>
  \<^verbatim>\<open>load_savegame\<close>: \<open>Inr\<close> the returned value, \<open>Inl\<close> the exception that leaves the
  function. The handler is \<^verbatim>\<open>except (json.JSONDecodeError, IOError)\<close>.
\<close>

definition load_savegame ::
  "(string \<Rightarrow> json option) \<Rightarrow> filesystem \<Rightarrow> string \<Rightarrow> py_exception + json" where
  "load_savegame json_loads fs filepath =
     (case fs filepath of
        None \<Rightarrow> Inr default_save
      | Some f \<Rightarrow>
          (case json_load json_loads f of
             Inr data \<Rightarrow> Inr data
           | Inl e \<Rightarrow>
               if e = JSONDecodeError \<or> e = OSError then Inr default_save else Inl e))"

subsection \<open>Runs of frames\<close>

text \<open>
  A frame is the key snapshot and the \<open>dt\<close> of one call of \<^verbatim>\<open>Player.update\<close>;
  \<open>run_player\<close> makes the calls in order. \<open>elapsed_ms\<close> is the update time of a run in
  the unit of the player's timers, which lose \<open>dt * 1000\<close> on a call.
\<close>

type_synonym frame = "Keys \<times> real"

fun run_player :: "frame list \<Rightarrow> Player \<Rightarrow> Player" where
  "run_player [] p = p"
| "run_player (f # fs) p = run_player fs (Player_update (fst f) (snd f) p)"

fun elapsed_ms :: "frame list \<Rightarrow> real" where
  "elapsed_ms [] = 0"
| "elapsed_ms (f # fs) = snd f * 1000 + elapsed_ms fs"

text \<open>
  The part of the update time of a run that falls on frames in which \<^verbatim>\<open>Player.update\<close>
  takes the normal path, that is, does not return early from the dash branch.
\<close>

fun normal_path_ms :: "frame list \<Rightarrow> Player \<Rightarrow> real" where
  "normal_path_ms [] p = 0"
| "normal_path_ms (f # fs) p =
     (if p_is_dashing (handle_dash_input (fst f) (update_dash_timers (snd f) p)) then 0
      else snd f * 1000)
     + normal_path_ms fs (Player_update (fst f) (snd f) p)"

text \<open>The velocity the movement keys ask for (lines 118 to 127).\<close>

definition walk_velocity :: "Keys \<Rightarrow> real" where
  "walk_velocity keys =
     (if K_LEFT keys \<or> K_a keys then - real_of_int PLAYER_SPEED
      else if K_RIGHT keys \<or> K_d keys then real_of_int PLAYER_SPEED else 0)"

text \<open>
  The dash timers of a player on whom a dash was triggered \<open>a\<close> of update time ago, with
  \<open>a\<close> below the dash cooldown of 1000: the cooldown has run down by \<open>a\<close>, and the dash
  is on, with its time run down by \<open>a\<close>, exactly while \<open>a\<close> is below 200.
\<close>

definition dash_phase :: "real \<Rightarrow> Player \<Rightarrow> bool" where
  "dash_phase a p \<longleftrightarrow>
     0 \<le> a \<and> a < 1000 \<and> p_dash_cooldown p = 1000 - a \<and>
     (p_is_dashing p \<longleftrightarrow> a < 200) \<and>
     (p_is_dashing p \<longrightarrow> p_dash_time p = 200 - a)"



text \<open>
  A call of \<^verbatim>\<open>update\<close> runs the whole frame when the scene is not paused, not over and
  not in hit stop; \<open>full_frames\<close> says so of every call of a run.
\<close>

definition full_frame :: "GameScene \<Rightarrow> bool" where
  "full_frame s \<longleftrightarrow> \<not> paused s \<and> \<not> game_over s \<and> \<not> hit_stop_duration s > 0"




text \<open>The test of the attack loop (line 214) and the test of the contact (line 249).\<close>

definition attack_lands :: "Player \<Rightarrow> Enemy \<Rightarrow> bool" where
  "attack_lands p enemy \<longleftrightarrow>
     enemy_is_alive enemy \<and> check_collision (get_attack_rect p) (e_rect enemy)"

definition touches :: "real \<Rightarrow> Player \<Rightarrow> Enemy \<Rightarrow> bool" where
  "touches dt p enemy \<longleftrightarrow>
     enemy_is_alive enemy \<and>
     check_collision (e_rect (Enemy_update (p_x p, p_y p) dt enemy)) (p_rect p)"

text \<open>The scene as the enemy loop of line 241 finds it.\<close>

definition before_enemies :: "Keys \<Rightarrow> frame_random \<Rightarrow> real \<Rightarrow> GameScene \<Rightarrow> GameScene" where
  "before_enemies keys rnd dt s = player_phase keys rnd dt (tick_effects dt s)"

text \<open>The scene as the spawn timer of line 265 finds it, the dead enemies removed.\<close>

definition before_spawn_timer ::
  "Keys \<Rightarrow> frame_random \<Rightarrow> real \<Rightarrow> GameScene \<Rightarrow> GameScene" where
  "before_spawn_timer keys rnd dt s =
     (let m = enemy_phase rnd dt (before_enemies keys rnd dt s)
      in m\<lparr>enemies := filter enemy_is_alive (enemies m)\<rparr>)"

subsection \<open>Sample inputs\<close>

text \<open>Fixed draws and a scene with the player at the start position and no enemy.\<close>

definition sample_random :: frame_random where
  "sample_random = \<lparr>dash_roll = 1,
     dash_draws = (\<lambda>i. \<lparr>draw_vx = 0, draw_vy = 0, draw_lifetime = 20, draw_size = 2\<rparr>),
     blood_draws = (\<lambda>i. \<lparr>draw_vx = 0, draw_vy = 0, draw_lifetime = 20, draw_size = 2\<rparr>),
     heal_draws = (\<lambda>i. \<lparr>draw_vx = 0, draw_vy = 0, draw_lifetime = 20, draw_size = 2\<rparr>),
     kill_spawn = \<lparr>speed_variance = 1, side = 0, spawn_distance = 600\<rparr>,
     hit_draws = (\<lambda>i. \<lparr>draw_vx = 0, draw_vy = 0, draw_lifetime = 20, draw_size = 2\<rparr>),
     maintain_spawn = \<lparr>speed_variance = 1, side = 1, spawn_distance = 600\<rparr>\<rparr>"

definition sample_scene :: GameScene where
  "sample_scene = GameScene_init\<lparr>player := Some (Player_init 512 622)\<rparr>"

section \<open>Properties\<close>

lemmas constants_defs =
  WINDOW_WIDTH_def WINDOW_HEIGHT_def PLAYER_WIDTH_def PLAYER_HEIGHT_def PLAYER_SPEED_def
  PLAYER_JUMP_STRENGTH_def PLAYER_GRAVITY_def PLAYER_GROUND_Y_def ENEMY_WIDTH_def
  ENEMY_HEIGHT_def ENEMY_BASE_SPEED_def ATTACK_RANGE_def ATTACK_COOLDOWN_def
  PLAYER_HEALTH_def

subsection \<open>What the steps of \<^verbatim>\<open>Player.update\<close> and \<^verbatim>\<open>Enemy.update\<close> change\<close>

lemma handle_horizontal_keeps [simp]:
  "p_x (handle_horizontal keys p) = p_x p \<and>
   p_health (handle_horizontal keys p) = p_health p \<and>
   p_max_health (handle_horizontal keys p) = p_max_health p \<and>
   p_attack_cooldown (handle_horizontal keys p) = p_attack_cooldown p \<and>
   p_is_dashing (handle_horizontal keys p) = p_is_dashing p \<and>
   p_dash_time (handle_horizontal keys p) = p_dash_time p \<and>
   p_dash_cooldown (handle_horizontal keys p) = p_dash_cooldown p \<and>
   p_dash_speed (handle_horizontal keys p) = p_dash_speed p"
  by (simp add: handle_horizontal_def Let_def)

lemma handle_horizontal_velocity_x:
  "p_velocity_x (handle_horizontal keys p) =
     (if K_LEFT keys \<or> K_a keys then - real_of_int PLAYER_SPEED
      else if K_RIGHT keys \<or> K_d keys then real_of_int PLAYER_SPEED else 0)"
  by (simp add: handle_horizontal_def Let_def)

lemma handle_jump_keeps [simp]:
  "p_x (handle_jump keys p) = p_x p \<and>
   p_velocity_x (handle_jump keys p) = p_velocity_x p \<and>
   p_health (handle_jump keys p) = p_health p \<and>
   p_max_health (handle_jump keys p) = p_max_health p \<and>
   p_attack_cooldown (handle_jump keys p) = p_attack_cooldown p \<and>
   p_is_dashing (handle_jump keys p) = p_is_dashing p \<and>
   p_dash_time (handle_jump keys p) = p_dash_time p \<and>
   p_dash_cooldown (handle_jump keys p) = p_dash_cooldown p \<and>
   p_dash_speed (handle_jump keys p) = p_dash_speed p"
  by (simp add: handle_jump_def)

lemma apply_gravity_keeps [simp]:
  "p_x (apply_gravity p) = p_x p \<and>
   p_velocity_x (apply_gravity p) = p_velocity_x p \<and>
   p_health (apply_gravity p) = p_health p \<and>
   p_max_health (apply_gravity p) = p_max_health p \<and>
   p_attack_cooldown (apply_gravity p) = p_attack_cooldown p \<and>
   p_is_dashing (apply_gravity p) = p_is_dashing p \<and>
   p_dash_time (apply_gravity p) = p_dash_time p \<and>
   p_dash_cooldown (apply_gravity p) = p_dash_cooldown p \<and>
   p_dash_speed (apply_gravity p) = p_dash_speed p"
  by (simp add: apply_gravity_def)

lemma update_position_keeps [simp]:
  "p_velocity_x (update_position dt p) = p_velocity_x p \<and>
   p_health (update_position dt p) = p_health p \<and>
   p_max_health (update_position dt p) = p_max_health p \<and>
   p_attack_cooldown (update_position dt p) = p_attack_cooldown p \<and>
   p_is_dashing (update_position dt p) = p_is_dashing p \<and>
   p_dash_time (update_position dt p) = p_dash_time p \<and>
   p_dash_cooldown (update_position dt p) = p_dash_cooldown p \<and>
   p_dash_speed (update_position dt p) = p_dash_speed p"
  by (simp add: update_position_def)

lemma ground_collision_keeps [simp]:
  "p_x (ground_collision p) = p_x p \<and>
   p_velocity_x (ground_collision p) = p_velocity_x p \<and>
   p_health (ground_collision p) = p_health p \<and>
   p_max_health (ground_collision p) = p_max_health p \<and>
   p_attack_cooldown (ground_collision p) = p_attack_cooldown p \<and>
   p_is_dashing (ground_collision p) = p_is_dashing p \<and>
   p_dash_time (ground_collision p) = p_dash_time p \<and>
   p_dash_cooldown (ground_collision p) = p_dash_cooldown p \<and>
   p_dash_speed (ground_collision p) = p_dash_speed p"
  by (simp add: ground_collision_def Let_def)

lemma keep_on_screen_keeps [simp]:
  "p_x (keep_on_screen p) = max 0 (min (p_x p) (real_of_int (WINDOW_WIDTH - PLAYER_WIDTH))) \<and>
   p_velocity_x (keep_on_screen p) = p_velocity_x p \<and>
   p_health (keep_on_screen p) = p_health p \<and>
   p_max_health (keep_on_screen p) = p_max_health p \<and>
   p_attack_cooldown (keep_on_screen p) = p_attack_cooldown p \<and>
   p_is_dashing (keep_on_screen p) = p_is_dashing p \<and>
   p_dash_time (keep_on_screen p) = p_dash_time p \<and>
   p_dash_cooldown (keep_on_screen p) = p_dash_cooldown p \<and>
   p_dash_speed (keep_on_screen p) = p_dash_speed p"
  by (simp add: keep_on_screen_def Let_def)

lemma update_attack_cooldown_keeps [simp]:
  "p_x (update_attack_cooldown dt p) = p_x p \<and>
   p_velocity_x (update_attack_cooldown dt p) = p_velocity_x p \<and>
   p_health (update_attack_cooldown dt p) = p_health p \<and>
   p_max_health (update_attack_cooldown dt p) = p_max_health p \<and>
   p_is_dashing (update_attack_cooldown dt p) = p_is_dashing p \<and>
   p_dash_time (update_attack_cooldown dt p) = p_dash_time p \<and>
   p_dash_cooldown (update_attack_cooldown dt p) = p_dash_cooldown p \<and>
   p_dash_speed (update_attack_cooldown dt p) = p_dash_speed p"
  by (simp add: update_attack_cooldown_def Let_def)

lemma update_attack_cooldown_value:
  "p_attack_cooldown (update_attack_cooldown dt p) =
     (if p_attack_cooldown p > 0 then p_attack_cooldown p - dt * 1000
      else p_attack_cooldown p)"
  by (simp add: update_attack_cooldown_def Let_def)

lemma normal_movement_keeps [simp]:
  "p_health (normal_movement keys dt p) = p_health p \<and>
   p_max_health (normal_movement keys dt p) = p_max_health p \<and>
   p_is_dashing (normal_movement keys dt p) = p_is_dashing p \<and>
   p_dash_time (normal_movement keys dt p) = p_dash_time p \<and>
   p_dash_cooldown (normal_movement keys dt p) = p_dash_cooldown p \<and>
   p_dash_speed (normal_movement keys dt p) = p_dash_speed p"
  by (simp add: normal_movement_def)

lemma normal_movement_attack_cooldown:
  "p_attack_cooldown (normal_movement keys dt p) =
     (if p_attack_cooldown p > 0 then p_attack_cooldown p - dt * 1000
      else p_attack_cooldown p)"
  by (simp add: normal_movement_def update_attack_cooldown_value)

lemma normal_movement_velocity_x:
  "p_velocity_x (normal_movement keys dt p) =
     (if K_LEFT keys \<or> K_a keys then - real_of_int PLAYER_SPEED
      else if K_RIGHT keys \<or> K_d keys then real_of_int PLAYER_SPEED else 0)"
  by (simp add: normal_movement_def handle_horizontal_velocity_x)

lemma normal_movement_x:
  "0 \<le> p_x (normal_movement keys dt p) \<and>
   p_x (normal_movement keys dt p) \<le> real_of_int (WINDOW_WIDTH - PLAYER_WIDTH)"
  by (simp add: normal_movement_def constants_defs)

lemma dash_movement_keeps [simp]:
  "p_health (dash_movement dt p) = p_health p \<and>
   p_max_health (dash_movement dt p) = p_max_health p \<and>
   p_attack_cooldown (dash_movement dt p) = p_attack_cooldown p \<and>
   p_is_dashing (dash_movement dt p) = p_is_dashing p \<and>
   p_dash_time (dash_movement dt p) = p_dash_time p \<and>
   p_dash_cooldown (dash_movement dt p) = p_dash_cooldown p \<and>
   p_dash_speed (dash_movement dt p) = p_dash_speed p"
  by (simp add: dash_movement_def Let_def)

lemma dash_movement_x:
  "0 \<le> p_x (dash_movement dt p) \<and>
   p_x (dash_movement dt p) \<le> real_of_int (WINDOW_WIDTH - PLAYER_WIDTH)"
  by (simp add: dash_movement_def Let_def constants_defs)

lemma pursue_keeps [simp]:
  "e_health (pursue px e) = e_health e \<and> e_x (pursue px e) = e_x e"
  by (simp add: pursue_def Let_def)

lemma settle_keeps [simp]:
  "e_health (settle dt e) = e_health e"
  by (simp add: settle_def Let_def)

lemma settle_x:
  "0 \<le> e_x (settle dt e) \<and> e_x (settle dt e) \<le> real_of_int (WINDOW_WIDTH - ENEMY_WIDTH)"
  by (simp add: settle_def Let_def constants_defs)

lemma Enemy_update_health [simp]:
  "e_health (Enemy_update pos dt e) = e_health e"
  by (simp add: Enemy_update_def)

subsection \<open>The horizontal clamp\<close>

text \<open>
  C7. After every update step of the player, on the dash path and on the normal path,
  and after every update step of an enemy, for every key snapshot, every state and
  every \<open>dt\<close>, the entity's \<open>x\<close> lies in \<open>[0, WINDOW_WIDTH - width]\<close>.
\<close>

theorem horizontal_clamp:
  "0 \<le> p_x (Player_update keys dt p) \<and>
   p_x (Player_update keys dt p) \<le> real_of_int (WINDOW_WIDTH - PLAYER_WIDTH) \<and>
   0 \<le> p_x (dash_movement dt p) \<and>
   p_x (dash_movement dt p) \<le> real_of_int (WINDOW_WIDTH - PLAYER_WIDTH) \<and>
   0 \<le> p_x (normal_movement keys dt p) \<and>
   p_x (normal_movement keys dt p) \<le> real_of_int (WINDOW_WIDTH - PLAYER_WIDTH) \<and>
   0 \<le> e_x (Enemy_update pos dt e) \<and>
   e_x (Enemy_update pos dt e) \<le> real_of_int (WINDOW_WIDTH - ENEMY_WIDTH)"
  using dash_movement_x normal_movement_x settle_x
  by (simp add: Player_update_def Enemy_update_def Let_def)

subsection \<open>The attack cooldown\<close>

lemma update_dash_timers_keeps [simp]:
  "p_health (update_dash_timers dt p) = p_health p \<and>
   p_max_health (update_dash_timers dt p) = p_max_health p \<and>
   p_attack_cooldown (update_dash_timers dt p) = p_attack_cooldown p \<and>
   p_dash_speed (update_dash_timers dt p) = p_dash_speed p"
  by (simp add: update_dash_timers_def Let_def)

lemma handle_dash_input_keeps [simp]:
  "p_health (handle_dash_input keys p) = p_health p \<and>
   p_max_health (handle_dash_input keys p) = p_max_health p \<and>
   p_attack_cooldown (handle_dash_input keys p) = p_attack_cooldown p \<and>
   p_velocity_x (handle_dash_input keys p) = p_velocity_x p \<and>
   p_dash_speed (handle_dash_input keys p) = p_dash_speed p"
  by (simp add: handle_dash_input_def start_dash_def)

lemma Player_update_health [simp]:
  "p_health (Player_update keys dt p) = p_health p \<and>
   p_max_health (Player_update keys dt p) = p_max_health p"
  by (simp add: Player_update_def Let_def)

lemma Player_update_attack_cooldown:
  "p_attack_cooldown (Player_update keys dt p) =
     (if p_is_dashing (handle_dash_input keys (update_dash_timers dt p))
      then p_attack_cooldown p
      else if p_attack_cooldown p > 0 then p_attack_cooldown p - dt * 1000
      else p_attack_cooldown p)"
  by (simp add: Player_update_def Let_def normal_movement_attack_cooldown)

lemma normal_path_ms_nonneg:
  "\<forall>f\<in>set fs. 0 \<le> snd f \<Longrightarrow> 0 \<le> normal_path_ms fs p"
  by (induction fs arbitrary: p) auto

lemma normal_path_ms_le_elapsed:
  "\<forall>f\<in>set fs. 0 \<le> snd f \<Longrightarrow> normal_path_ms fs p \<le> elapsed_ms fs"
proof (induction fs arbitrary: p)
  case Nil
  then show ?case by simp
next
  case (Cons f fs)
  have "normal_path_ms fs (Player_update (fst f) (snd f) p) \<le> elapsed_ms fs"
    using Cons by simp
  moreover have "0 \<le> snd f" using Cons.prems by simp
  ultimately show ?case by simp
qed

lemma run_player_attack_cooldown:
  "\<forall>f\<in>set fs. 0 \<le> snd f \<Longrightarrow>
   p_attack_cooldown (run_player fs p) \<le> 0 \<longleftrightarrow>
   p_attack_cooldown p - normal_path_ms fs p \<le> 0"
proof (induction fs arbitrary: p)
  case Nil
  then show ?case by simp
next
  case (Cons f fs)
  let ?q = "Player_update (fst f) (snd f) p"
  have dt: "0 \<le> snd f" and rest: "\<forall>g\<in>set fs. 0 \<le> snd g"
    using Cons.prems by simp_all
  have ih: "p_attack_cooldown (run_player fs ?q) \<le> 0 \<longleftrightarrow>
            p_attack_cooldown ?q - normal_path_ms fs ?q \<le> 0"
    using Cons.IH [OF rest] .
  have nn: "0 \<le> normal_path_ms fs ?q"
    using normal_path_ms_nonneg [OF rest] .
  show ?case
    using ih nn dt by (auto simp add: Player_update_attack_cooldown)
qed

lemma update_dash_timers_idle:
  "\<not> p_is_dashing p \<Longrightarrow> \<not> p_is_dashing (update_dash_timers dt p)"
  by (simp add: update_dash_timers_def Let_def)

lemma Player_update_no_dash:
  "\<not> p_is_dashing p \<Longrightarrow> \<not> K_LSHIFT keys \<Longrightarrow> \<not> K_RSHIFT keys \<Longrightarrow>
   \<not> p_is_dashing (handle_dash_input keys (update_dash_timers dt p)) \<and>
   \<not> p_is_dashing (Player_update keys dt p)"
  by (simp add: Player_update_def Let_def handle_dash_input_def update_dash_timers_idle)

lemma normal_path_ms_no_dash:
  "\<not> p_is_dashing p \<Longrightarrow> \<forall>f\<in>set fs. \<not> K_LSHIFT (fst f) \<and> \<not> K_RSHIFT (fst f) \<Longrightarrow>
   normal_path_ms fs p = elapsed_ms fs"
proof (induction fs arbitrary: p)
  case Nil
  then show ?case by simp
next
  case (Cons f fs)
  have k: "\<not> K_LSHIFT (fst f)" "\<not> K_RSHIFT (fst f)" using Cons.prems by simp_all
  note nd = Player_update_no_dash [OF Cons.prems(1) k, of "snd f"]
  have "normal_path_ms fs (Player_update (fst f) (snd f) p) = elapsed_ms fs"
    using Cons.IH [of "Player_update (fst f) (snd f) p"] nd Cons.prems(2) by simp
  then show ?case using nd by simp
qed

lemma attack_gate:
  "(fst (attack p) \<longleftrightarrow> p_attack_cooldown p \<le> 0) \<and>
   (p_attack_cooldown p \<le> 0 \<longrightarrow>
      snd (attack p) = p\<lparr>p_attack_cooldown := real_of_int ATTACK_COOLDOWN\<rparr>) \<and>
   (\<not> p_attack_cooldown p \<le> 0 \<longrightarrow> snd (attack p) = p)"
  by (simp add: attack_def)

text \<open>
  C8, as amended. \<^verbatim>\<open>Player.attack\<close> succeeds exactly when the attack cooldown is at most
  0; it then sets the cooldown to 800, and otherwise changes nothing. Between two calls
  the cooldown runs down only on the frames of \<^verbatim>\<open>Player.update\<close> that take the normal
  path (the dash branch returns before the cooldown is touched). So, after a successful
  call and a run of frames with \<open>dt \<ge> 0\<close>, the second call succeeds exactly when the
  normal-path frames of the run add up to at least 800; it fails whenever the whole run
  is shorter than 800; and it succeeds after a run of at least 800 in which the player
  never dashes.
\<close>

theorem attack_cooldown_gate:
  assumes "\<forall>f\<in>set fs. 0 \<le> snd f"
  shows "(fst (attack p) \<longleftrightarrow> p_attack_cooldown p \<le> 0) \<and>
    (p_attack_cooldown p \<le> 0 \<longrightarrow>
       snd (attack p) = p\<lparr>p_attack_cooldown := 800\<rparr>) \<and>
    (\<not> p_attack_cooldown p \<le> 0 \<longrightarrow> snd (attack p) = p) \<and>
    (p_attack_cooldown p \<le> 0 \<longrightarrow>
       (fst (attack (run_player fs (snd (attack p)))) \<longleftrightarrow>
          800 \<le> normal_path_ms fs (snd (attack p))) \<and>
       (elapsed_ms fs < 800 \<longrightarrow> \<not> fst (attack (run_player fs (snd (attack p))))) \<and>
       (\<not> p_is_dashing p \<and> (\<forall>f\<in>set fs. \<not> K_LSHIFT (fst f) \<and> \<not> K_RSHIFT (fst f)) \<and>
        800 \<le> elapsed_ms fs \<longrightarrow> fst (attack (run_player fs (snd (attack p))))))"
proof -
  let ?q = "p\<lparr>p_attack_cooldown := 800\<rparr>"
  have gate: "fst (attack (run_player fs ?q)) \<longleftrightarrow> 800 \<le> normal_path_ms fs ?q"
    using run_player_attack_cooldown [OF assms, of ?q] by (simp add: attack_def)
  have short: "elapsed_ms fs < 800 \<longrightarrow> \<not> fst (attack (run_player fs ?q))"
    using gate normal_path_ms_le_elapsed [OF assms, of ?q] by auto
  have long: "\<not> p_is_dashing p \<and> (\<forall>f\<in>set fs. \<not> K_LSHIFT (fst f) \<and> \<not> K_RSHIFT (fst f)) \<and>
        800 \<le> elapsed_ms fs \<longrightarrow> fst (attack (run_player fs ?q))"
    using gate normal_path_ms_no_dash [of ?q fs] by auto
  show ?thesis
    using gate short long by (simp add: attack_def ATTACK_COOLDOWN_def)
qed

theorem attack_cooldown_gate_witness:
  "fst (attack (Player_init 512 622)) \<and>
   \<not> fst (attack (run_player [(no_keys, 0.5)] (snd (attack (Player_init 512 622))))) \<and>
   fst (attack (run_player [(no_keys, 0.5), (no_keys, 0.3)] (snd (attack (Player_init 512 622)))))"
proof -
  have a: "\<forall>f\<in>set [(no_keys, 0.5::real)]. 0 \<le> snd f" by simp
  have b: "\<forall>f\<in>set [(no_keys, 0.5::real), (no_keys, 0.3)]. 0 \<le> snd f" by simp
  have c: "p_attack_cooldown (Player_init 512 622) \<le> 0" by (simp add: Player_init_def)
  have d: "\<not> p_is_dashing (Player_init 512 622)" by (simp add: Player_init_def)
  have k: "\<not> K_LSHIFT no_keys \<and> \<not> K_RSHIFT no_keys" by (simp add: no_keys_def)
  show ?thesis
    using attack_cooldown_gate [OF a, of "Player_init 512 622"]
          attack_cooldown_gate [OF b, of "Player_init 512 622"] c d k
    by auto
qed

text \<open>
  C8 as stated fails: after a successful attack, one frame of \<open>dt = 0.8\<close> (800 of update
  time) on which a dash starts leaves the cooldown at 800, and the second attack fails.
\<close>

theorem attack_after_dash_counterexample:
  "fst (attack (Player_init 512 622)) \<and>
   800 \<le> elapsed_ms [(no_keys\<lparr>K_LSHIFT := True\<rparr>, 0.8)] \<and>
   \<not> fst (attack (run_player [(no_keys\<lparr>K_LSHIFT := True\<rparr>, 0.8)]
                   (snd (attack (Player_init 512 622)))))"
  by (simp add: attack_def Player_init_def Player_update_attack_cooldown
        handle_dash_input_def update_dash_timers_def start_dash_def no_keys_def
        ATTACK_COOLDOWN_def)

subsection \<open>The dash\<close>

lemma dash_trigger:
  assumes "K_LSHIFT keys \<or> K_RSHIFT keys" "p_dash_cooldown p \<le> 0" "\<not> p_is_dashing p"
  shows "dash_phase 0 (Player_update keys dt p)"
  using assms
  by (simp add: dash_phase_def Player_update_def Let_def update_dash_timers_def
        handle_dash_input_def start_dash_def)

lemma dash_phase_timers:
  assumes "dash_phase a p" "0 \<le> dt" "a + dt * 1000 < 1000"
  shows "dash_phase (a + dt * 1000) (update_dash_timers dt p)"
  using assms by (auto simp add: dash_phase_def update_dash_timers_def Let_def)

lemma dash_phase_no_retrigger:
  assumes "dash_phase a p"
  shows "handle_dash_input keys p = p"
  using assms by (simp add: dash_phase_def handle_dash_input_def)

lemma dash_phase_movement:
  assumes "dash_phase a p"
  shows "dash_phase a (dash_movement dt p)" "dash_phase a (normal_movement keys dt p)"
  using assms by (simp_all add: dash_phase_def)

lemma dash_phase_update:
  assumes "dash_phase a p" "0 \<le> dt" "a + dt * 1000 < 1000"
  shows "dash_phase (a + dt * 1000) (Player_update keys dt p)"
proof -
  let ?q = "update_dash_timers dt p"
  have q: "dash_phase (a + dt * 1000) ?q" using dash_phase_timers [OF assms] .
  have "handle_dash_input keys ?q = ?q" using dash_phase_no_retrigger [OF q] .
  then show ?thesis
    using dash_phase_movement [OF q] by (simp add: Player_update_def Let_def)
qed

lemma elapsed_ms_nonneg: "\<forall>f\<in>set fs. 0 \<le> snd f \<Longrightarrow> 0 \<le> elapsed_ms fs"
  by (induction fs) auto

lemma dash_phase_run:
  assumes "dash_phase a p" "\<forall>f\<in>set fs. 0 \<le> snd f" "a + elapsed_ms fs < 1000"
  shows "dash_phase (a + elapsed_ms fs) (run_player fs p)"
  using assms
proof (induction fs arbitrary: a p)
  case Nil
  then show ?case by simp
next
  case (Cons f fs)
  have dt: "0 \<le> snd f" and rest: "\<forall>g\<in>set fs. 0 \<le> snd g"
    using Cons.prems(2) by simp_all
  have "0 \<le> elapsed_ms fs" using elapsed_ms_nonneg [OF rest] .
  then have step: "a + snd f * 1000 < 1000" using Cons.prems(3) by simp
  have q: "dash_phase (a + snd f * 1000) (Player_update (fst f) (snd f) p)"
    using dash_phase_update [OF Cons.prems(1) dt step] .
  have "dash_phase (a + snd f * 1000 + elapsed_ms fs)
          (run_player fs (Player_update (fst f) (snd f) p))"
    using Cons.IH [OF q rest] Cons.prems(3) by (simp add: add.assoc)
  then show ?case by (simp add: add.assoc)
qed

lemma dash_ends:
  assumes "dash_phase a p" "a < 200" "200 \<le> a + dt * 1000"
  shows "\<not> p_is_dashing (update_dash_timers dt p) \<and>
         p_velocity_x (update_dash_timers dt p) = 0"
  using assms by (simp add: dash_phase_def update_dash_timers_def Let_def)

lemma Player_update_velocity_x:
  "\<not> p_is_dashing (handle_dash_input keys (update_dash_timers dt p)) \<Longrightarrow>
   p_velocity_x (Player_update keys dt p) = walk_velocity keys"
  by (simp add: Player_update_def Let_def normal_movement_velocity_x walk_velocity_def)

lemma Player_update_is_dashing:
  "p_is_dashing (Player_update keys dt p)
     = p_is_dashing (handle_dash_input keys (update_dash_timers dt p))"
  by (simp add: Player_update_def Let_def)

lemma handle_dash_input_no_key:
  "\<not> (K_LSHIFT keys \<or> K_RSHIFT keys) \<Longrightarrow> handle_dash_input keys p = p"
  by (simp add: handle_dash_input_def)

text \<open>The update that takes the elapsed time of a dash to 200 or more.\<close>

lemma dash_ending_update:
  assumes "dash_phase a p" "a < 200" "200 \<le> a + dt * 1000" "0 \<le> dt"
    and "a + dt * 1000 < 1000 \<or> \<not> (K_LSHIFT keys \<or> K_RSHIFT keys)"
  shows "\<not> p_is_dashing (Player_update keys dt p) \<and>
         p_velocity_x (Player_update keys dt p) = walk_velocity keys"
proof -
  let ?q = "update_dash_timers dt p"
  have off: "\<not> p_is_dashing ?q" using dash_ends [OF assms(1-3)] by simp
  have same: "handle_dash_input keys ?q = ?q"
  proof (cases "a + dt * 1000 < 1000")
    case True
    then show ?thesis
      using dash_phase_no_retrigger [OF dash_phase_timers [OF assms(1,4) True]] by simp
  next
    case False
    then show ?thesis using assms(5) handle_dash_input_no_key by blast
  qed
  have "\<not> p_is_dashing (handle_dash_input keys ?q)" using off same by simp
  then show ?thesis
    using Player_update_velocity_x Player_update_is_dashing by blast
qed

text \<open>
  C6, as amended. A frame with a dash key held, a dash cooldown of at most 0 and no dash
  on starts a dash. From then on, over frames with \<open>dt \<ge> 0\<close>: \<open>is_dashing\<close> holds after
  every run with less than 200 of elapsed update time. The update that takes the elapsed
  time to 200 or more returns with \<open>is_dashing\<close> false and with the horizontal velocity
  the movement keys ask for, which is 0 when none is held and \<open>- 5\<close> or \<open>5\<close> with a left
  or right key held; this holds whenever that update cannot start a new dash, that is,
  when it ends before 1000 has elapsed or no dash key is held in it. Between 200 and
  1000 of elapsed time no dash is on; and in every frame that ends before 1000 has
  elapsed the dash input changes nothing, whatever keys are held, and the cooldown goes
  on running down.
\<close>

theorem dash_lifecycle:
  assumes "K_LSHIFT keys0 \<or> K_RSHIFT keys0" "p_dash_cooldown p0 \<le> 0" "\<not> p_is_dashing p0"
    and "\<forall>f\<in>set fs. 0 \<le> snd f" "0 \<le> dt"
  shows "p_is_dashing (Player_update keys0 dt0 p0) \<and>
    (elapsed_ms fs < 200 \<longrightarrow>
       p_is_dashing (run_player fs (Player_update keys0 dt0 p0))) \<and>
    (elapsed_ms fs < 200 \<and> 200 \<le> elapsed_ms fs + dt * 1000 \<and>
     (elapsed_ms fs + dt * 1000 < 1000 \<or> \<not> (K_LSHIFT keys \<or> K_RSHIFT keys)) \<longrightarrow>
       \<not> p_is_dashing (Player_update keys dt (run_player fs (Player_update keys0 dt0 p0))) \<and>
       p_velocity_x (Player_update keys dt (run_player fs (Player_update keys0 dt0 p0)))
         = (if K_LEFT keys \<or> K_a keys then - 5 else if K_RIGHT keys \<or> K_d keys then 5 else 0)) \<and>
    (200 \<le> elapsed_ms fs \<and> elapsed_ms fs < 1000 \<longrightarrow>
       \<not> p_is_dashing (run_player fs (Player_update keys0 dt0 p0))) \<and>
    (elapsed_ms fs + dt * 1000 < 1000 \<longrightarrow>
       handle_dash_input keys
         (update_dash_timers dt (run_player fs (Player_update keys0 dt0 p0)))
       = update_dash_timers dt (run_player fs (Player_update keys0 dt0 p0)) \<and>
       p_dash_cooldown (Player_update keys dt (run_player fs (Player_update keys0 dt0 p0)))
       = 1000 - (elapsed_ms fs + dt * 1000))"
proof -
  let ?p1 = "Player_update keys0 dt0 p0"
  let ?e = "elapsed_ms fs"
  let ?p = "run_player fs ?p1"
  have p1: "dash_phase 0 ?p1" using dash_trigger [OF assms(1-3)] .
  have e0: "0 \<le> ?e" using elapsed_ms_nonneg [OF assms(4)] .
  have run: "dash_phase ?e ?p" if "?e < 1000"
    using dash_phase_run [OF p1 assms(4)] that by simp
  have c1: "p_is_dashing ?p1" using p1 by (simp add: dash_phase_def)
  have c2: "?e < 200 \<longrightarrow> p_is_dashing ?p"
    using run by (auto simp add: dash_phase_def)
  have step: "dash_phase (?e + dt * 1000) (update_dash_timers dt ?p) \<and>
              dash_phase (?e + dt * 1000) (Player_update keys dt ?p)"
    if "?e + dt * 1000 < 1000"
  proof -
    have "?e < 1000" using that assms(5) by (simp add: add_nonneg_eq_0_iff)
    then show ?thesis
      using dash_phase_timers [OF run _ that] dash_phase_update [OF run _ that] assms(5)
      by simp
  qed
  have c6: "?e + dt * 1000 < 1000 \<longrightarrow>
       handle_dash_input keys (update_dash_timers dt ?p) = update_dash_timers dt ?p \<and>
       p_dash_cooldown (Player_update keys dt ?p) = 1000 - (?e + dt * 1000)"
    using step dash_phase_no_retrigger [of "?e + dt * 1000" "update_dash_timers dt ?p" keys]
    by (auto simp add: dash_phase_def)
  have c4: "?e < 200 \<and> 200 \<le> ?e + dt * 1000 \<and>
       (?e + dt * 1000 < 1000 \<or> \<not> (K_LSHIFT keys \<or> K_RSHIFT keys)) \<longrightarrow>
       \<not> p_is_dashing (Player_update keys dt ?p) \<and>
       p_velocity_x (Player_update keys dt ?p)
         = (if K_LEFT keys \<or> K_a keys then - 5 else if K_RIGHT keys \<or> K_d keys then 5 else 0)"
  proof (intro impI)
    assume h: "?e < 200 \<and> 200 \<le> ?e + dt * 1000 \<and>
       (?e + dt * 1000 < 1000 \<or> \<not> (K_LSHIFT keys \<or> K_RSHIFT keys))"
    then have r: "dash_phase ?e ?p" using run by simp
    have "\<not> p_is_dashing (Player_update keys dt ?p) \<and>
         p_velocity_x (Player_update keys dt ?p) = walk_velocity keys"
      using dash_ending_update [OF r _ _ assms(5), of keys] h by blast
    then show "\<not> p_is_dashing (Player_update keys dt ?p) \<and>
       p_velocity_x (Player_update keys dt ?p)
         = (if K_LEFT keys \<or> K_a keys then - 5 else if K_RIGHT keys \<or> K_d keys then 5 else 0)"
      by (simp add: walk_velocity_def PLAYER_SPEED_def)
  qed
  have c5: "200 \<le> ?e \<and> ?e < 1000 \<longrightarrow> \<not> p_is_dashing ?p"
    using run by (auto simp add: dash_phase_def)
  show ?thesis using c1 c2 c4 c5 c6 by blast
qed

theorem dash_lifecycle_witness:
  "p_is_dashing (run_player [(no_keys, 0.1)]
      (Player_update (no_keys\<lparr>K_LSHIFT := True\<rparr>) 1 (Player_init 512 622))) \<and>
   \<not> p_is_dashing (Player_update (no_keys\<lparr>K_LSHIFT := True\<rparr>) 0.1
      (run_player [(no_keys, 0.1)]
        (Player_update (no_keys\<lparr>K_LSHIFT := True\<rparr>) 1 (Player_init 512 622)))) \<and>
   p_velocity_x (Player_update (no_keys\<lparr>K_LSHIFT := True\<rparr>) 0.1
      (run_player [(no_keys, 0.1)]
        (Player_update (no_keys\<lparr>K_LSHIFT := True\<rparr>) 1 (Player_init 512 622)))) = 0 \<and>
   p_dash_cooldown (Player_update (no_keys\<lparr>K_LSHIFT := True\<rparr>) 0.1
      (run_player [(no_keys, 0.1)]
        (Player_update (no_keys\<lparr>K_LSHIFT := True\<rparr>) 1 (Player_init 512 622)))) = 800"
proof -
  have a: "K_LSHIFT (no_keys\<lparr>K_LSHIFT := True\<rparr>) \<or> K_RSHIFT (no_keys\<lparr>K_LSHIFT := True\<rparr>)"
    by simp
  have b: "p_dash_cooldown (Player_init 512 622) \<le> 0" by (simp add: Player_init_def)
  have c: "\<not> p_is_dashing (Player_init 512 622)" by (simp add: Player_init_def)
  have d: "\<forall>f\<in>set [(no_keys, 0.1::real)]. 0 \<le> snd f" by simp
  have e: "(0::real) \<le> 0.1" by simp
  have k: "\<not> K_LEFT (no_keys\<lparr>K_LSHIFT := True\<rparr>)" "\<not> K_a (no_keys\<lparr>K_LSHIFT := True\<rparr>)"
    "\<not> K_RIGHT (no_keys\<lparr>K_LSHIFT := True\<rparr>)" "\<not> K_d (no_keys\<lparr>K_LSHIFT := True\<rparr>)"
    by (simp_all add: no_keys_def)
  show ?thesis
    using dash_lifecycle [OF a b c d e, where keys = "no_keys\<lparr>K_LSHIFT := True\<rparr>" and ?dt0.0 = 1] k
    by simp
qed

text \<open>
  C6 as stated fails. A dash is triggered; the next frame, with \<open>dt = 0.2\<close> and a left
  key held, takes the elapsed time to 200 and ends the dash, and the player it returns
  has a horizontal velocity of \<open>- 5\<close>, not 0.
\<close>

theorem dash_end_velocity_counterexample:
  "p_is_dashing (Player_update (no_keys\<lparr>K_LSHIFT := True\<rparr>) 1 (Player_init 512 622)) \<and>
   elapsed_ms [(no_keys\<lparr>K_LEFT := True\<rparr>, 0.2)] = 200 \<and>
   \<not> p_is_dashing (run_player [(no_keys\<lparr>K_LEFT := True\<rparr>, 0.2)]
        (Player_update (no_keys\<lparr>K_LSHIFT := True\<rparr>) 1 (Player_init 512 622))) \<and>
   p_velocity_x (run_player [(no_keys\<lparr>K_LEFT := True\<rparr>, 0.2)]
        (Player_update (no_keys\<lparr>K_LSHIFT := True\<rparr>) 1 (Player_init 512 622))) = - 5"
proof -
  let ?p1 = "Player_update (no_keys\<lparr>K_LSHIFT := True\<rparr>) 1 (Player_init 512 622)"
  have a: "K_LSHIFT (no_keys\<lparr>K_LSHIFT := True\<rparr>) \<or> K_RSHIFT (no_keys\<lparr>K_LSHIFT := True\<rparr>)"
    by simp
  have b: "p_dash_cooldown (Player_init 512 622) \<le> 0" by (simp add: Player_init_def)
  have c: "\<not> p_is_dashing (Player_init 512 622)" by (simp add: Player_init_def)
  have p1: "dash_phase 0 ?p1" using dash_trigger [OF a b c] .
  have on: "p_is_dashing ?p1" using p1 by (simp add: dash_phase_def)
  have "\<not> p_is_dashing (Player_update (no_keys\<lparr>K_LEFT := True\<rparr>) 0.2 ?p1) \<and>
        p_velocity_x (Player_update (no_keys\<lparr>K_LEFT := True\<rparr>) 0.2 ?p1)
          = walk_velocity (no_keys\<lparr>K_LEFT := True\<rparr>)"
    using dash_ending_update [OF p1, where dt = "0.2" and keys = "no_keys\<lparr>K_LEFT := True\<rparr>"]
    by simp
  then show ?thesis using on by (simp add: walk_velocity_def PLAYER_SPEED_def)
qed

subsection \<open>The save file\<close>

lemma load_savegame_default_cases:
  "(fs filepath = None \<longrightarrow> load_savegame json_loads fs filepath = Inr default_save) \<and>
   (fs filepath = Some Unreadable \<longrightarrow>
      load_savegame json_loads fs filepath = Inr default_save) \<and>
   (fs filepath = Some (Text t) \<and> json_loads t = None \<longrightarrow>
      load_savegame json_loads fs filepath = Inr default_save)"
  by (simp add: load_savegame_def json_load_def)

text \<open>
  C9 fails on the code. A save file whose bytes are not text in the encoding of
  \<^verbatim>\<open>open(filepath, 'r')\<close> cannot be read, and \<^verbatim>\<open>load_savegame\<close> does not return the
  default record: the \<^verbatim>\<open>UnicodeDecodeError\<close> of \<^verbatim>\<open>read\<close> is not among the exceptions
  the handler catches and leaves the function.
\<close>

theorem load_savegame_undecodable:
  "load_savegame json_loads (fs(filepath \<mapsto> Undecodable)) filepath = Inl UnicodeDecodeError"
  by (simp add: load_savegame_def json_load_def)

text \<open>
  C10. Whatever value the contents of the file parse to, \<^verbatim>\<open>load_savegame\<close> returns that
  value as it is, with no check of its shape. The default record is returned only when
  the path does not exist, the file is unreadable or its text does not parse (or the
  text parses to that very record).
\<close>

theorem load_savegame_verbatim:
  "(fs filepath = Some (Text t) \<and> json_loads t = Some data \<longrightarrow>
      load_savegame json_loads fs filepath = Inr data) \<and>
   (load_savegame json_loads fs filepath = Inr default_save \<longrightarrow>
      fs filepath = None \<or> fs filepath = Some Unreadable \<or>
      (\<exists>t. fs filepath = Some (Text t) \<and>
           (json_loads t = None \<or> json_loads t = Some default_save)))"
  by (auto simp add: load_savegame_def json_load_def
        split: option.splits file_contents.splits sum.splits if_splits)

theorem load_savegame_verbatim_witness:
  "load_savegame (\<lambda>t. if t = ''[]'' then Some (JArray []) else None)
     [SAVEGAME_PATH \<mapsto> Text ''[]''] SAVEGAME_PATH = Inr (JArray []) \<and>
   load_savegame (\<lambda>t. if t = ''{}'' then Some (JObject []) else None)
     [SAVEGAME_PATH \<mapsto> Text ''{}''] SAVEGAME_PATH = Inr (JObject []) \<and>
   JArray [] \<noteq> default_save \<and> JObject [] \<noteq> default_save"
  using load_savegame_verbatim
          [of "[SAVEGAME_PATH \<mapsto> Text ''[]'']" SAVEGAME_PATH "''[]''"
              "\<lambda>t. if t = ''[]'' then Some (JArray []) else None" "JArray []"]
        load_savegame_verbatim
          [of "[SAVEGAME_PATH \<mapsto> Text ''{}'']" SAVEGAME_PATH "''{}''"
              "\<lambda>t. if t = ''{}'' then Some (JObject []) else None" "JObject []"]
  by (simp add: default_save_def)

subsection \<open>The pause key\<close>

text \<open>
  C5, as amended. An Escape key-down flips the \<open>paused\<close> flag and changes nothing else
  of the scene. When the flip pauses the scene the handler returns the request to change
  to the main menu; when it resumes the scene it requests nothing. Two such events in a
  row give back the scene they started from.
\<close>

theorem pause_toggle:
  "fst (handle_event draw (KEYDOWN K_ESCAPE) s) = s\<lparr>paused := \<not> paused s\<rparr> \<and>
   snd (handle_event draw (KEYDOWN K_ESCAPE) s)
     = (if paused s then None else Some ''main_menu'') \<and>
   fst (handle_event draw2 (KEYDOWN K_ESCAPE) (fst (handle_event draw (KEYDOWN K_ESCAPE) s)))
     = s"
  by (simp add: handle_event_def Let_def)

text \<open>
  C5 as stated fails: pausing the running scene requests a scene transition.
\<close>

theorem pause_requests_menu_counterexample:
  "\<not> paused GameScene_init \<and>
   snd (handle_event \<lparr>speed_variance = 1, side = 0, spawn_distance = 600\<rparr>
          (KEYDOWN K_ESCAPE) GameScene_init) = Some ''main_menu''"
  by (simp add: handle_event_def Let_def GameScene_init_def)

subsection \<open>What the phases of \<^verbatim>\<open>GameScene.update\<close> change\<close>

lemma tick_effects_keeps [simp]:
  "player (tick_effects dt s) = player s \<and>
   enemies (tick_effects dt s) = enemies s \<and>
   score (tick_effects dt s) = score s \<and>
   max_enemies_on_screen (tick_effects dt s) = max_enemies_on_screen s \<and>
   spawn_timer (tick_effects dt s) = spawn_timer s \<and>
   spawn_interval (tick_effects dt s) = spawn_interval s \<and>
   hit_stop_duration (tick_effects dt s) = hit_stop_duration s \<and>
   combo_timeout (tick_effects dt s) = combo_timeout s \<and>
   paused (tick_effects dt s) = paused s \<and>
   game_over (tick_effects dt s) = game_over s"
  by (simp add: tick_effects_def Let_def)

lemma dash_dust_keeps [simp]:
  "player (dash_dust rnd p s) = player s \<and>
   enemies (dash_dust rnd p s) = enemies s \<and>
   score (dash_dust rnd p s) = score s \<and>
   max_enemies_on_screen (dash_dust rnd p s) = max_enemies_on_screen s \<and>
   spawn_timer (dash_dust rnd p s) = spawn_timer s \<and>
   spawn_interval (dash_dust rnd p s) = spawn_interval s \<and>
   screen_shake (dash_dust rnd p s) = screen_shake s \<and>
   hit_stop_duration (dash_dust rnd p s) = hit_stop_duration s \<and>
   combo_count (dash_dust rnd p s) = combo_count s \<and>
   combo_timer (dash_dust rnd p s) = combo_timer s \<and>
   combo_timeout (dash_dust rnd p s) = combo_timeout s \<and>
   paused (dash_dust rnd p s) = paused s \<and>
   game_over (dash_dust rnd p s) = game_over s"
  by (simp add: dash_dust_def)

lemma new_enemy_cong:
  "score s = score s' \<Longrightarrow> player s = player s' \<Longrightarrow> new_enemy draw s = new_enemy draw s'"
  by (simp add: new_enemy_def)

lemma new_enemy_enemies [simp]: "new_enemy draw (s\<lparr>enemies := es\<rparr>) = new_enemy draw s"
  by (simp add: new_enemy_def)

lemma new_enemy_alive [simp]: "enemy_is_alive (new_enemy draw s)"
  by (simp add: new_enemy_def Let_def Enemy_init_def enemy_is_alive_def)

lemma spawn_single_enemy_keeps [simp]:
  "player (spawn_single_enemy draw s) = player s \<and>
   score (spawn_single_enemy draw s) = score s \<and>
   max_enemies_on_screen (spawn_single_enemy draw s) = max_enemies_on_screen s \<and>
   spawn_timer (spawn_single_enemy draw s) = spawn_timer s \<and>
   spawn_interval (spawn_single_enemy draw s) = spawn_interval s \<and>
   particle_system (spawn_single_enemy draw s) = particle_system s \<and>
   screen_shake (spawn_single_enemy draw s) = screen_shake s \<and>
   hit_stop_duration (spawn_single_enemy draw s) = hit_stop_duration s \<and>
   combo_count (spawn_single_enemy draw s) = combo_count s \<and>
   combo_timer (spawn_single_enemy draw s) = combo_timer s \<and>
   combo_timeout (spawn_single_enemy draw s) = combo_timeout s \<and>
   paused (spawn_single_enemy draw s) = paused s \<and>
   game_over (spawn_single_enemy draw s) = game_over s"
  by (simp add: spawn_single_enemy_def)

lemma spawn_single_enemy_enemies:
  "enemies (spawn_single_enemy draw s)
     = enemies s @ [new_enemy draw (spawn_single_enemy draw s)]"
  by (simp add: spawn_single_enemy_def)

lemma maintain_enemies_keeps [simp]:
  "player (maintain_enemies draw s) = player s \<and>
   score (maintain_enemies draw s) = score s \<and>
   max_enemies_on_screen (maintain_enemies draw s) = max_enemies_on_screen s \<and>
   spawn_timer (maintain_enemies draw s) = spawn_timer s \<and>
   spawn_interval (maintain_enemies draw s) = spawn_interval s \<and>
   particle_system (maintain_enemies draw s) = particle_system s \<and>
   screen_shake (maintain_enemies draw s) = screen_shake s \<and>
   hit_stop_duration (maintain_enemies draw s) = hit_stop_duration s \<and>
   combo_count (maintain_enemies draw s) = combo_count s \<and>
   combo_timer (maintain_enemies draw s) = combo_timer s \<and>
   combo_timeout (maintain_enemies draw s) = combo_timeout s \<and>
   paused (maintain_enemies draw s) = paused s \<and>
   game_over (maintain_enemies draw s) = game_over s"
  by (simp add: maintain_enemies_def)

lemma enemy_take_damage_last_hit:
  "e_health enemy = 1 \<Longrightarrow> enemy_take_damage 1 enemy = enemy\<lparr>e_health := 0\<rparr>"
  by (simp add: enemy_take_damage_def Let_def)

lemma resolve_hit_keeps [simp]:
  "max_enemies_on_screen (resolve_hit rnd p seen enemy rest s) = max_enemies_on_screen s \<and>
   spawn_timer (resolve_hit rnd p seen enemy rest s) = spawn_timer s \<and>
   spawn_interval (resolve_hit rnd p seen enemy rest s) = spawn_interval s \<and>
   combo_timeout (resolve_hit rnd p seen enemy rest s) = combo_timeout s \<and>
   paused (resolve_hit rnd p seen enemy rest s) = paused s \<and>
   game_over (resolve_hit rnd p seen enemy rest s) = game_over s"
  by (simp add: resolve_hit_def Let_def)

lemma resolve_hit_kill:
  assumes "e_health enemy = 1"
  shows "score (resolve_hit rnd p seen enemy rest s) = score s + 1"
    and "screen_shake (resolve_hit rnd p seen enemy rest s) = 10"
    and "hit_stop_duration (resolve_hit rnd p seen enemy rest s) = 3"
    and "combo_count (resolve_hit rnd p seen enemy rest s) = combo_count s + 1"
    and "combo_timer (resolve_hit rnd p seen enemy rest s) = combo_timeout s"
    and "player (resolve_hit rnd p seen enemy rest s) =
           (if score s + 1 > 0 \<and> (score s + 1) mod 10 = 0
            then Some (p\<lparr>p_health := min (p_max_health p) (p_health p + 10)\<rparr>)
            else player s)"
    and "particle_system (resolve_hit rnd p seen enemy rest s) =
           particle_system s @
           emit (blood_draws rnd)
             (e_x enemy + real_of_int (rect_width (e_rect enemy) div 2))
             (e_y enemy + real_of_int (rect_height (e_rect enemy) div 2)) 20 RED 8 Blood @
           (if score s + 1 > 0 \<and> (score s + 1) mod 10 = 0
            then emit (heal_draws rnd) (p_x p) (p_y p) 15 GREEN 4 Dust else [])"
    and "enemies (resolve_hit rnd p seen enemy rest s) =
           seen @ enemy\<lparr>e_health := 0\<rparr> # rest @
           [new_enemy (kill_spawn rnd) (resolve_hit rnd p seen enemy rest s)]"
proof -
  have dead: "\<not> enemy_is_alive (enemy_take_damage 1 enemy)"
    using assms by (simp add: enemy_take_damage_last_hit enemy_is_alive_def)
  show "score (resolve_hit rnd p seen enemy rest s) = score s + 1"
    using dead by (simp add: resolve_hit_def Let_def)
  show "screen_shake (resolve_hit rnd p seen enemy rest s) = 10"
    using dead by (simp add: resolve_hit_def Let_def)
  show "hit_stop_duration (resolve_hit rnd p seen enemy rest s) = 3"
    using dead by (simp add: resolve_hit_def Let_def)
  show "combo_count (resolve_hit rnd p seen enemy rest s) = combo_count s + 1"
    using dead by (simp add: resolve_hit_def Let_def)
  show "combo_timer (resolve_hit rnd p seen enemy rest s) = combo_timeout s"
    using dead by (simp add: resolve_hit_def Let_def)
  show "player (resolve_hit rnd p seen enemy rest s) =
           (if score s + 1 > 0 \<and> (score s + 1) mod 10 = 0
            then Some (p\<lparr>p_health := min (p_max_health p) (p_health p + 10)\<rparr>)
            else player s)"
    using dead by (simp add: resolve_hit_def Let_def)
  show "particle_system (resolve_hit rnd p seen enemy rest s) =
           particle_system s @
           emit (blood_draws rnd)
             (e_x enemy + real_of_int (rect_width (e_rect enemy) div 2))
             (e_y enemy + real_of_int (rect_height (e_rect enemy) div 2)) 20 RED 8 Blood @
           (if score s + 1 > 0 \<and> (score s + 1) mod 10 = 0
            then emit (heal_draws rnd) (p_x p) (p_y p) 15 GREEN 4 Dust else [])"
    using dead assms by (simp add: resolve_hit_def Let_def enemy_take_damage_last_hit)
  show "enemies (resolve_hit rnd p seen enemy rest s) =
           seen @ enemy\<lparr>e_health := 0\<rparr> # rest @
           [new_enemy (kill_spawn rnd) (resolve_hit rnd p seen enemy rest s)]"
    using dead assms
    by (simp add: resolve_hit_def Let_def enemy_take_damage_last_hit
          spawn_single_enemy_def)
qed

lemma attack_enemies_none:
  "\<forall>x\<in>set es. \<not> attack_lands p x \<Longrightarrow> attack_enemies rnd p seen es s = s"
  by (induction es arbitrary: seen) (auto simp add: attack_lands_def)

lemma attack_enemies_first:
  "\<forall>x\<in>set pre. \<not> attack_lands p x \<Longrightarrow> attack_lands p enemy \<Longrightarrow>
   attack_enemies rnd p seen (pre @ enemy # post) s
     = resolve_hit rnd p (seen @ pre) enemy post s"
  by (induction pre arbitrary: seen) (auto simp add: attack_lands_def)

lemma attack_enemies_keeps [simp]:
  "max_enemies_on_screen (attack_enemies rnd p seen es s) = max_enemies_on_screen s \<and>
   spawn_timer (attack_enemies rnd p seen es s) = spawn_timer s \<and>
   spawn_interval (attack_enemies rnd p seen es s) = spawn_interval s \<and>
   combo_timeout (attack_enemies rnd p seen es s) = combo_timeout s \<and>
   paused (attack_enemies rnd p seen es s) = paused s \<and>
   game_over (attack_enemies rnd p seen es s) = game_over s"
  by (induction es arbitrary: seen) simp_all

lemma handle_attack_keeps [simp]:
  "max_enemies_on_screen (handle_attack keys rnd p s) = max_enemies_on_screen s \<and>
   spawn_timer (handle_attack keys rnd p s) = spawn_timer s \<and>
   spawn_interval (handle_attack keys rnd p s) = spawn_interval s \<and>
   combo_timeout (handle_attack keys rnd p s) = combo_timeout s \<and>
   paused (handle_attack keys rnd p s) = paused s \<and>
   game_over (handle_attack keys rnd p s) = game_over s"
  by (simp add: handle_attack_def Let_def)

lemma player_phase_keeps [simp]:
  "max_enemies_on_screen (player_phase keys rnd dt s) = max_enemies_on_screen s \<and>
   spawn_timer (player_phase keys rnd dt s) = spawn_timer s \<and>
   spawn_interval (player_phase keys rnd dt s) = spawn_interval s \<and>
   combo_timeout (player_phase keys rnd dt s) = combo_timeout s \<and>
   paused (player_phase keys rnd dt s) = paused s \<and>
   game_over (player_phase keys rnd dt s) = game_over s"
  by (simp add: player_phase_def Let_def split: option.splits)

text \<open>A successful attack on a list whose first enemy in reach has health 1.\<close>

lemma handle_attack_kill:
  assumes keys: "K_SPACE keys \<or> K_x keys"
    and ready: "p_attack_cooldown p \<le> 0"
    and es: "enemies s = pre @ enemy # post"
    and pre: "\<forall>x\<in>set pre. \<not> attack_lands (snd (attack p)) x"
    and hit: "attack_lands (snd (attack p)) enemy"
    and one: "e_health enemy = 1"
  shows "handle_attack keys rnd p s
           = resolve_hit rnd (snd (attack p)) pre enemy post (s\<lparr>player := Some (snd (attack p))\<rparr>)"
proof -
  have "fst (attack p)" using ready by (simp add: attack_def)
  then show ?thesis
    using keys es attack_enemies_first [OF pre hit, of rnd "[]" post]
    by (simp add: handle_attack_def Let_def)
qed

subsection \<open>The enemy loop\<close>

lemma player_contact_immune:
  "p_attack_cooldown (fst ps) > 0 \<or> p_is_dashing (fst ps) \<Longrightarrow> player_contact rnd ps = ps"
  by (auto simp add: player_contact_def Let_def)

lemma player_contact_arms:
  "\<not> (p_attack_cooldown (fst ps) > 0 \<or> p_is_dashing (fst ps)) \<Longrightarrow>
   p_attack_cooldown (fst (player_contact rnd ps)) > 0 \<and>
   p_rect (fst (player_contact rnd ps)) = p_rect (fst ps)"
  by (simp add: player_contact_def Let_def take_damage_def)

lemma update_enemies_immune:
  "p_attack_cooldown (fst ps) > 0 \<or> p_is_dashing (fst ps) \<Longrightarrow>
   snd (update_enemies rnd dt pos es ps) = ps"
  by (induction es) (simp_all add: Let_def player_contact_immune)

lemma update_enemies_no_contact:
  "\<forall>e\<in>set es. \<not> (enemy_is_alive e \<and>
       check_collision (e_rect (Enemy_update pos dt e)) (p_rect (fst ps))) \<Longrightarrow>
   snd (update_enemies rnd dt pos es ps) = ps"
  by (induction es) (simp_all add: Let_def)

lemma update_enemies_contact:
  assumes "\<not> (p_attack_cooldown (fst ps) > 0 \<or> p_is_dashing (fst ps))"
    and "\<exists>e\<in>set es. enemy_is_alive e \<and>
           check_collision (e_rect (Enemy_update pos dt e)) (p_rect (fst ps))"
  shows "snd (update_enemies rnd dt pos es ps) = player_contact rnd ps"
  using assms(2)
proof (induction es)
  case Nil
  then show ?case by simp
next
  case (Cons e es)
  show ?case
  proof (cases "enemy_is_alive e \<and>
           check_collision (e_rect (Enemy_update pos dt e)) (p_rect (fst ps))")
    case True
    have "p_attack_cooldown (fst (player_contact rnd ps)) > 0"
      using player_contact_arms [OF assms(1)] by simp
    then have "snd (update_enemies rnd dt pos es (player_contact rnd ps))
                 = player_contact rnd ps"
      using update_enemies_immune by blast
    then show ?thesis using True by (simp add: Let_def)
  next
    case False
    then have "\<exists>e\<in>set es. enemy_is_alive e \<and>
           check_collision (e_rect (Enemy_update pos dt e)) (p_rect (fst ps))"
      using Cons.prems by auto
    then have "snd (update_enemies rnd dt pos es ps) = player_contact rnd ps"
      using Cons.IH by simp
    then show ?thesis using False by (auto simp add: Let_def)
  qed
qed

lemma update_enemies_cases:
  "snd (update_enemies rnd dt pos es ps) = ps \<or>
   snd (update_enemies rnd dt pos es ps) = player_contact rnd ps"
proof (cases "p_attack_cooldown (fst ps) > 0 \<or> p_is_dashing (fst ps)")
  case True
  then show ?thesis using update_enemies_immune by blast
next
  case False
  show ?thesis
  proof (cases "\<exists>e\<in>set es. enemy_is_alive e \<and>
           check_collision (e_rect (Enemy_update pos dt e)) (p_rect (fst ps))")
    case True
    then show ?thesis using update_enemies_contact [OF False] by blast
  next
    case False
    then show ?thesis using update_enemies_no_contact [of es pos dt ps rnd] by blast
  qed
qed

lemma update_enemies_list:
  "fst (update_enemies rnd dt pos es ps)
     = map (\<lambda>e. if enemy_is_alive e then Enemy_update pos dt e else e) es"
  by (induction es arbitrary: ps) (simp_all add: Let_def)

lemma player_contact_keeps [simp]:
  "player (snd (player_contact rnd ps)) = player (snd ps) \<and>
   enemies (snd (player_contact rnd ps)) = enemies (snd ps) \<and>
   score (snd (player_contact rnd ps)) = score (snd ps) \<and>
   max_enemies_on_screen (snd (player_contact rnd ps)) = max_enemies_on_screen (snd ps) \<and>
   spawn_timer (snd (player_contact rnd ps)) = spawn_timer (snd ps) \<and>
   spawn_interval (snd (player_contact rnd ps)) = spawn_interval (snd ps) \<and>
   hit_stop_duration (snd (player_contact rnd ps)) = hit_stop_duration (snd ps) \<and>
   combo_timer (snd (player_contact rnd ps)) = combo_timer (snd ps) \<and>
   combo_timeout (snd (player_contact rnd ps)) = combo_timeout (snd ps) \<and>
   paused (snd (player_contact rnd ps)) = paused (snd ps) \<and>
   game_over (snd (player_contact rnd ps)) = game_over (snd ps)"
  by (simp add: player_contact_def Let_def)

lemma update_enemies_keeps [simp]:
  "score (snd (snd (update_enemies rnd dt pos es ps))) = score (snd ps) \<and>
   max_enemies_on_screen (snd (snd (update_enemies rnd dt pos es ps)))
     = max_enemies_on_screen (snd ps) \<and>
   spawn_timer (snd (snd (update_enemies rnd dt pos es ps))) = spawn_timer (snd ps) \<and>
   spawn_interval (snd (snd (update_enemies rnd dt pos es ps))) = spawn_interval (snd ps) \<and>
   hit_stop_duration (snd (snd (update_enemies rnd dt pos es ps)))
     = hit_stop_duration (snd ps) \<and>
   combo_timer (snd (snd (update_enemies rnd dt pos es ps))) = combo_timer (snd ps) \<and>
   combo_timeout (snd (snd (update_enemies rnd dt pos es ps))) = combo_timeout (snd ps) \<and>
   paused (snd (snd (update_enemies rnd dt pos es ps))) = paused (snd ps) \<and>
   game_over (snd (snd (update_enemies rnd dt pos es ps))) = game_over (snd ps)"
  using update_enemies_cases [of rnd dt pos es ps] by auto

lemma enemy_phase_keeps [simp]:
  "score (enemy_phase rnd dt s) = score s \<and>
   max_enemies_on_screen (enemy_phase rnd dt s) = max_enemies_on_screen s \<and>
   spawn_timer (enemy_phase rnd dt s) = spawn_timer s \<and>
   spawn_interval (enemy_phase rnd dt s) = spawn_interval s \<and>
   hit_stop_duration (enemy_phase rnd dt s) = hit_stop_duration s \<and>
   combo_timer (enemy_phase rnd dt s) = combo_timer s \<and>
   combo_timeout (enemy_phase rnd dt s) = combo_timeout s \<and>
   paused (enemy_phase rnd dt s) = paused s \<and>
   game_over (enemy_phase rnd dt s) = game_over s"
  by (simp add: enemy_phase_def Let_def split: option.splits)

subsection \<open>The end of the frame\<close>

lemma periodic_spawn_keeps [simp]:
  "player (periodic_spawn rnd dt s) = player s \<and>
   score (periodic_spawn rnd dt s) = score s \<and>
   spawn_interval (periodic_spawn rnd dt s) = spawn_interval s \<and>
   particle_system (periodic_spawn rnd dt s) = particle_system s \<and>
   screen_shake (periodic_spawn rnd dt s) = screen_shake s \<and>
   hit_stop_duration (periodic_spawn rnd dt s) = hit_stop_duration s \<and>
   combo_count (periodic_spawn rnd dt s) = combo_count s \<and>
   combo_timer (periodic_spawn rnd dt s) = combo_timer s \<and>
   combo_timeout (periodic_spawn rnd dt s) = combo_timeout s \<and>
   paused (periodic_spawn rnd dt s) = paused s \<and>
   game_over (periodic_spawn rnd dt s) = game_over s"
  by (simp add: periodic_spawn_def Let_def)

lemma maintain_enemies_spawn_timer [simp]:
  "enemies (maintain_enemies draw (s\<lparr>spawn_timer := t\<rparr>)) = enemies (maintain_enemies draw s)"
  by (simp add: maintain_enemies_def spawn_single_enemy_def new_enemy_def)



lemma check_game_over_keeps [simp]:
  "player (fst (check_game_over s)) = player s \<and>
   enemies (fst (check_game_over s)) = enemies s \<and>
   score (fst (check_game_over s)) = score s \<and>
   max_enemies_on_screen (fst (check_game_over s)) = max_enemies_on_screen s \<and>
   spawn_timer (fst (check_game_over s)) = spawn_timer s \<and>
   spawn_interval (fst (check_game_over s)) = spawn_interval s \<and>
   particle_system (fst (check_game_over s)) = particle_system s \<and>
   screen_shake (fst (check_game_over s)) = screen_shake s \<and>
   hit_stop_duration (fst (check_game_over s)) = hit_stop_duration s \<and>
   combo_count (fst (check_game_over s)) = combo_count s \<and>
   combo_timer (fst (check_game_over s)) = combo_timer s \<and>
   combo_timeout (fst (check_game_over s)) = combo_timeout s \<and>
   paused (fst (check_game_over s)) = paused s"
  by (simp add: check_game_over_def split: option.splits)

lemma update_full_frame:
  "full_frame s \<Longrightarrow>
   update keys rnd dt s
     = check_game_over
         (periodic_spawn rnd dt (enemy_phase rnd dt (before_enemies keys rnd dt s)))"
  by (simp add: update_def full_frame_def before_enemies_def)

lemma before_enemies_keeps [simp]:
  "max_enemies_on_screen (before_enemies keys rnd dt s) = max_enemies_on_screen s \<and>
   spawn_timer (before_enemies keys rnd dt s) = spawn_timer s \<and>
   spawn_interval (before_enemies keys rnd dt s) = spawn_interval s \<and>
   combo_timeout (before_enemies keys rnd dt s) = combo_timeout s \<and>
   paused (before_enemies keys rnd dt s) = paused s \<and>
   game_over (before_enemies keys rnd dt s) = game_over s"
  by (simp add: before_enemies_def)

lemma before_spawn_timer_keeps [simp]:
  "max_enemies_on_screen (before_spawn_timer keys rnd dt s) = max_enemies_on_screen s \<and>
   spawn_timer (before_spawn_timer keys rnd dt s) = spawn_timer s \<and>
   spawn_interval (before_spawn_timer keys rnd dt s) = spawn_interval s"
  by (simp add: before_spawn_timer_def Let_def)




subsection \<open>The spawn timer\<close>







subsection \<open>One kill for each attack\<close>

lemma attack_lands_attack [simp]: "attack_lands (snd (attack p)) enemy = attack_lands p enemy"
  by (simp add: attack_lands_def attack_def get_attack_rect_def)

lemma player_phase_kill:
  assumes pl: "player s = Some p0" "is_alive p0"
    and keys: "K_SPACE keys \<or> K_x keys"
    and ready: "fst (attack (Player_update keys dt p0))"
    and es: "enemies s = pre @ enemy # post"
    and pre: "\<forall>x\<in>set pre. \<not> attack_lands (Player_update keys dt p0) x"
    and hit: "attack_lands (Player_update keys dt p0) enemy"
    and one: "e_health enemy = 1"
  shows "player_phase keys rnd dt s
           = resolve_hit rnd (snd (attack (Player_update keys dt p0))) pre enemy post
               ((dash_dust rnd (Player_update keys dt p0)
                   (s\<lparr>player := Some (Player_update keys dt p0)\<rparr>))
                \<lparr>player := Some (snd (attack (Player_update keys dt p0)))\<rparr>)"
proof -
  let ?p1 = "Player_update keys dt p0"
  let ?s1 = "dash_dust rnd ?p1 (s\<lparr>player := Some ?p1\<rparr>)"
  have r: "p_attack_cooldown ?p1 \<le> 0" using ready by (simp add: attack_def split: if_splits)
  have e: "enemies ?s1 = pre @ enemy # post" using es by simp
  have "handle_attack keys rnd ?p1 ?s1
          = resolve_hit rnd (snd (attack ?p1)) pre enemy post (?s1\<lparr>player := Some (snd (attack ?p1))\<rparr>)"
    using handle_attack_kill [OF keys r e _ _ one] pre hit by simp
  then show ?thesis using pl by (simp add: player_phase_def Let_def)
qed

lemma player_phase_miss:
  assumes "player s = Some p0" "is_alive p0"
    and "\<forall>x\<in>set (enemies s). \<not> attack_lands (Player_update keys dt p0) x"
  shows "enemies (player_phase keys rnd dt s) = enemies s"
  using assms attack_enemies_none [of "enemies s" "snd (attack (Player_update keys dt p0))"]
  by (simp add: player_phase_def handle_attack_def Let_def)

lemma enemy_phase_health:
  "map e_health (enemies (enemy_phase rnd dt s)) = map e_health (enemies s)"
  by (simp add: enemy_phase_def Let_def update_enemies_list o_def split: option.splits)

text \<open>
  C1. In a frame in which an attack key is held and the player's attack succeeds, let
  \<open>enemy\<close> be the first enemy of the list that is alive and whose rectangle the attack
  rectangle overlaps, \<open>pre\<close> the enemies before it and \<open>post\<close> those after it, some of
  which may be alive and overlap too. Then the attack takes \<open>enemy\<close> from health 1 to 0,
  leaves every other enemy as it was and appends the replacement. The enemy loop that
  follows changes no enemy's health. An attack that overlaps no live enemy changes no
  enemy.
\<close>

theorem one_kill_per_attack:
  assumes "player s = Some p0" "is_alive p0"
    and "K_SPACE keys \<or> K_x keys"
    and "fst (attack (Player_update keys dt p0))"
  shows "(enemies s = pre @ enemy # post \<and>
          (\<forall>x\<in>set pre. \<not> attack_lands (Player_update keys dt p0) x) \<and>
          attack_lands (Player_update keys dt p0) enemy \<and> e_health enemy = 1 \<longrightarrow>
            enemies (player_phase keys rnd dt s)
              = pre @ enemy\<lparr>e_health := 0\<rparr> # post @
                [new_enemy (kill_spawn rnd) (player_phase keys rnd dt s)] \<and>
            map e_health (enemies (enemy_phase rnd dt (player_phase keys rnd dt s)))
              = map e_health pre @ 0 # map e_health post @ [1]) \<and>
         ((\<forall>x\<in>set (enemies s). \<not> attack_lands (Player_update keys dt p0) x) \<longrightarrow>
            enemies (player_phase keys rnd dt s) = enemies s)"
proof (intro conjI impI)
  assume h: "enemies s = pre @ enemy # post \<and>
          (\<forall>x\<in>set pre. \<not> attack_lands (Player_update keys dt p0) x) \<and>
          attack_lands (Player_update keys dt p0) enemy \<and> e_health enemy = 1"
  have eq: "player_phase keys rnd dt s
           = resolve_hit rnd (snd (attack (Player_update keys dt p0))) pre enemy post
               ((dash_dust rnd (Player_update keys dt p0)
                   (s\<lparr>player := Some (Player_update keys dt p0)\<rparr>))
                \<lparr>player := Some (snd (attack (Player_update keys dt p0)))\<rparr>)"
    using player_phase_kill [OF assms, of pre enemy post rnd] h by blast
  show a: "enemies (player_phase keys rnd dt s)
              = pre @ enemy\<lparr>e_health := 0\<rparr> # post @
                [new_enemy (kill_spawn rnd) (player_phase keys rnd dt s)]"
    using resolve_hit_kill(8) [of enemy rnd _ pre post] h eq by simp
  have "e_health (new_enemy (kill_spawn rnd) (player_phase keys rnd dt s)) = 1"
    by (simp add: new_enemy_def Let_def Enemy_init_def)
  then show "map e_health (enemies (enemy_phase rnd dt (player_phase keys rnd dt s)))
              = map e_health pre @ 0 # map e_health post @ [1]"
    using a by (simp add: enemy_phase_health)
next
  assume "\<forall>x\<in>set (enemies s). \<not> attack_lands (Player_update keys dt p0) x"
  then show "enemies (player_phase keys rnd dt s) = enemies s"
    using player_phase_miss [OF assms(1,2)] by simp
qed

lemma sample_player_update:
  "p_x (Player_update (no_keys\<lparr>K_SPACE := sp\<rparr>) 1 ((Player_init 512 622)\<lparr>p_health := h\<rparr>)) = 512"
  "p_y (Player_update (no_keys\<lparr>K_SPACE := sp\<rparr>) 1 ((Player_init 512 622)\<lparr>p_health := h\<rparr>)) = 622"
  "p_facing_right (Player_update (no_keys\<lparr>K_SPACE := sp\<rparr>) 1 ((Player_init 512 622)\<lparr>p_health := h\<rparr>))"
  "p_attack_cooldown (Player_update (no_keys\<lparr>K_SPACE := sp\<rparr>) 1 ((Player_init 512 622)\<lparr>p_health := h\<rparr>)) = 0"
  "\<not> p_is_dashing (Player_update (no_keys\<lparr>K_SPACE := sp\<rparr>) 1 ((Player_init 512 622)\<lparr>p_health := h\<rparr>))"
  "p_rect (Player_update (no_keys\<lparr>K_SPACE := sp\<rparr>) 1 ((Player_init 512 622)\<lparr>p_health := h\<rparr>))
     = \<lparr>rect_x = 512, rect_y = 622, rect_width = 96, rect_height = 96\<rparr>"
  by (simp_all add: Player_update_def Let_def update_dash_timers_def handle_dash_input_def
        normal_movement_def handle_horizontal_def handle_jump_def apply_gravity_def
        update_position_def ground_collision_def keep_on_screen_def update_attack_cooldown_def
        Player_init_def no_keys_def constants_defs py_int_def)

lemma sample_attack_lands:
  "attack_lands (Player_update (no_keys\<lparr>K_SPACE := True\<rparr>) 1 ((Player_init 512 622)\<lparr>p_health := h\<rparr>))
     (Enemy_init 600 622 1)"
  by (simp add: attack_lands_def get_attack_rect_def check_collision_def colliderect_def
        sample_player_update Enemy_init_def enemy_is_alive_def constants_defs py_int_def)

theorem one_kill_per_attack_witness:
  "map e_health (enemies (player_phase (no_keys\<lparr>K_SPACE := True\<rparr>) sample_random 1
       (sample_scene\<lparr>enemies := [Enemy_init 600 622 1, Enemy_init 600 622 1]\<rparr>)))
     = [0, 1, 1] \<and>
   enemies (player_phase (no_keys\<lparr>K_SPACE := True\<rparr>) sample_random 1 sample_scene) = []"
proof -
  let ?k = "no_keys\<lparr>K_SPACE := True\<rparr>"
  let ?P = "Player_init 512 622"
  let ?s = "sample_scene\<lparr>enemies := [Enemy_init 600 622 1, Enemy_init 600 622 1]\<rparr>"
  have P: "?P\<lparr>p_health := 100\<rparr> = ?P" by (simp add: Player_init_def PLAYER_HEALTH_def)
  have a: "player ?s = Some ?P" "player sample_scene = Some ?P"
    by (simp_all add: sample_scene_def)
  have b: "is_alive ?P" by (simp add: is_alive_def Player_init_def PLAYER_HEALTH_def)
  have c: "K_SPACE ?k \<or> K_x ?k" by simp
  have d: "fst (attack (Player_update ?k 1 ?P))"
    using sample_player_update(4) [of True 100] P by (simp add: attack_def)
  have e: "attack_lands (Player_update ?k 1 ?P) (Enemy_init 600 622 1)"
    using sample_attack_lands [of 100] P by simp
  have f: "e_health (Enemy_init 600 622 1) = 1" by (simp add: Enemy_init_def)
  have g: "enemies ?s = [] @ Enemy_init 600 622 1 # [Enemy_init 600 622 1]" by simp
  have n: "e_health (new_enemy (kill_spawn sample_random) (player_phase ?k sample_random 1 ?s)) = 1"
    by (simp add: new_enemy_def Let_def Enemy_init_def)
  have "enemies (player_phase ?k sample_random 1 ?s)
          = [] @ (Enemy_init 600 622 1)\<lparr>e_health := 0\<rparr> # [Enemy_init 600 622 1] @
            [new_enemy (kill_spawn sample_random) (player_phase ?k sample_random 1 ?s)]"
    using one_kill_per_attack [OF a(1) b c d, of "[]" "Enemy_init 600 622 1"
            "[Enemy_init 600 622 1]" sample_random] e f g
    by simp
  then have "map e_health (enemies (player_phase ?k sample_random 1 ?s)) = [0, 1, 1]"
    using n f by simp
  moreover have "enemies (player_phase ?k sample_random 1 sample_scene) = []"
    using one_kill_per_attack [OF a(2) b c d, of "[]" _ _ sample_random]
    by (simp add: sample_scene_def GameScene_init_def)
  ultimately show ?thesis by blast
qed

subsection \<open>An enemy touching the player\<close>

lemma player_contact_hit:
  assumes "is_alive p" "p_attack_cooldown p \<le> 0" "\<not> p_is_dashing p"
  shows "player_contact rnd (p, s)
           = (p\<lparr>p_health := p_health p - 1, p_attack_cooldown := 1200\<rparr>,
              s\<lparr>screen_shake := 5,
                particle_system := particle_system s @
                  emit (hit_draws rnd) (p_x p) (p_y p) 5 RED 3 Explosion,
                combo_count := 0\<rparr>)"
  using assms by (simp add: player_contact_def Let_def take_damage_def is_alive_def)

lemma enemy_phase_contact:
  assumes "player s = Some p" "is_alive p"
    and "\<exists>e\<in>set (enemies s). touches dt p e"
    and "p_attack_cooldown p \<le> 0" "\<not> p_is_dashing p"
  shows "player (enemy_phase rnd dt s)
           = Some (p\<lparr>p_health := p_health p - 1, p_attack_cooldown := 1200\<rparr>)"
    and "screen_shake (enemy_phase rnd dt s) = 5"
    and "combo_count (enemy_phase rnd dt s) = 0"
    and "particle_system (enemy_phase rnd dt s)
           = particle_system s @ emit (hit_draws rnd) (p_x p) (p_y p) 5 RED 3 Explosion"
proof -
  have v: "\<not> (p_attack_cooldown (fst (p, s)) > 0 \<or> p_is_dashing (fst (p, s)))"
    using assms(4,5) by simp
  have t: "\<exists>e\<in>set (enemies s). enemy_is_alive e \<and>
             check_collision (e_rect (Enemy_update (p_x p, p_y p) dt e)) (p_rect (fst (p, s)))"
    using assms(3) by (simp add: touches_def)
  have r: "snd (update_enemies rnd dt (p_x p, p_y p) (enemies s) (p, s))
             = player_contact rnd (p, s)"
    using update_enemies_contact [OF v t] .
  note c = player_contact_hit [OF assms(2,4,5), of rnd s]
  show "player (enemy_phase rnd dt s)
           = Some (p\<lparr>p_health := p_health p - 1, p_attack_cooldown := 1200\<rparr>)"
    using assms(1,2) r c by (simp add: enemy_phase_def Let_def)
  show "screen_shake (enemy_phase rnd dt s) = 5"
    using assms(1,2) r c by (simp add: enemy_phase_def Let_def)
  show "combo_count (enemy_phase rnd dt s) = 0"
    using assms(1,2) r c by (simp add: enemy_phase_def Let_def)
  show "particle_system (enemy_phase rnd dt s)
           = particle_system s @ emit (hit_draws rnd) (p_x p) (p_y p) 5 RED 3 Explosion"
    using assms(1,2) r c by (simp add: enemy_phase_def Let_def)
qed

lemma enemy_phase_immune:
  assumes "player s = Some p" "p_attack_cooldown p > 0 \<or> p_is_dashing p"
  shows "player (enemy_phase rnd dt s) = Some p"
    and "screen_shake (enemy_phase rnd dt s) = screen_shake s"
    and "combo_count (enemy_phase rnd dt s) = combo_count s"
    and "particle_system (enemy_phase rnd dt s) = particle_system s"
proof -
  have "p_attack_cooldown (fst (p, s)) > 0 \<or> p_is_dashing (fst (p, s))"
    using assms(2) by simp
  then have r: "snd (update_enemies rnd dt (p_x p, p_y p) (enemies s) (p, s)) = (p, s)"
    using update_enemies_immune by blast
  show "player (enemy_phase rnd dt s) = Some p"
    using assms(1) r by (simp add: enemy_phase_def Let_def)
  show "screen_shake (enemy_phase rnd dt s) = screen_shake s"
    using assms(1) r by (simp add: enemy_phase_def Let_def)
  show "combo_count (enemy_phase rnd dt s) = combo_count s"
    using assms(1) r by (simp add: enemy_phase_def Let_def)
  show "particle_system (enemy_phase rnd dt s) = particle_system s"
    using assms(1) r by (simp add: enemy_phase_def Let_def)
qed

lemma emit_burst:
  "length (emit draws x y n c speed t) = n \<and>
   (\<forall>q\<in>set (emit draws x y n c speed t). pt_color q = c \<and> pt_x q = x \<and> pt_y q = y)"
  by (auto simp add: emit_def Particle_init_def)

text \<open>
  C2. In a full frame, let \<open>p\<close> be the live player as the enemy loop finds it, and let
  some live enemy, once updated, overlap the player's rectangle. If the player's attack
  cooldown is at most 0 and the player is not dashing, then at the end of that update
  the player has lost exactly 1 health and has an attack cooldown of 1200, the screen
  shake is 5, the combo count is 0 and a burst of 5 red particles at the player's
  position has been added. If the cooldown is positive or the player is dashing, the
  player is unchanged by the contact.
\<close>

theorem contact_damage:
  assumes "full_frame s0"
    and "player (before_enemies keys rnd dt s0) = Some p" "is_alive p"
    and "\<exists>e\<in>set (enemies (before_enemies keys rnd dt s0)). touches dt p e"
  shows "(p_attack_cooldown p \<le> 0 \<and> \<not> p_is_dashing p \<longrightarrow>
            player (fst (update keys rnd dt s0))
              = Some (p\<lparr>p_health := p_health p - 1, p_attack_cooldown := 1200\<rparr>) \<and>
            screen_shake (fst (update keys rnd dt s0)) = 5 \<and>
            combo_count (fst (update keys rnd dt s0)) = 0 \<and>
            particle_system (fst (update keys rnd dt s0))
              = particle_system (before_enemies keys rnd dt s0) @
                emit (hit_draws rnd) (p_x p) (p_y p) 5 RED 3 Explosion \<and>
            length (emit (hit_draws rnd) (p_x p) (p_y p) 5 RED 3 Explosion) = 5 \<and>
            (\<forall>q\<in>set (emit (hit_draws rnd) (p_x p) (p_y p) 5 RED 3 Explosion).
               pt_color q = RED \<and> pt_x q = p_x p \<and> pt_y q = p_y p)) \<and>
         (p_attack_cooldown p > 0 \<or> p_is_dashing p \<longrightarrow>
            player (fst (update keys rnd dt s0)) = Some p)"
proof (intro conjI impI)
  let ?m = "before_enemies keys rnd dt s0"
  assume h: "p_attack_cooldown p \<le> 0 \<and> \<not> p_is_dashing p"
  note c = enemy_phase_contact [OF assms(2,3,4), of rnd] 
  show "player (fst (update keys rnd dt s0))
          = Some (p\<lparr>p_health := p_health p - 1, p_attack_cooldown := 1200\<rparr>)"
    using c(1) h assms(1) by (simp add: update_full_frame)
  show "screen_shake (fst (update keys rnd dt s0)) = 5"
    using c(2) h assms(1) by (simp add: update_full_frame)
  show "combo_count (fst (update keys rnd dt s0)) = 0"
    using c(3) h assms(1) by (simp add: update_full_frame)
  show "particle_system (fst (update keys rnd dt s0))
          = particle_system ?m @ emit (hit_draws rnd) (p_x p) (p_y p) 5 RED 3 Explosion"
    using c(4) h assms(1) by (simp add: update_full_frame)
  show "length (emit (hit_draws rnd) (p_x p) (p_y p) 5 RED 3 Explosion) = 5"
    using emit_burst by blast
  show "\<forall>q\<in>set (emit (hit_draws rnd) (p_x p) (p_y p) 5 RED 3 Explosion).
               pt_color q = RED \<and> pt_x q = p_x p \<and> pt_y q = p_y p"
    using emit_burst by blast
next
  assume "p_attack_cooldown p > 0 \<or> p_is_dashing p"
  then show "player (fst (update keys rnd dt s0)) = Some p"
    using enemy_phase_immune(1) [OF assms(2), of rnd dt] assms(1)
    by (simp add: update_full_frame)
qed

lemma player_phase_no_attack:
  assumes "player s = Some p0" "is_alive p0" "\<not> K_SPACE keys" "\<not> K_x keys"
  shows "player (player_phase keys rnd dt s) = Some (Player_update keys dt p0) \<and>
         enemies (player_phase keys rnd dt s) = enemies s"
  using assms by (simp add: player_phase_def handle_attack_def Let_def)

lemma sample_player_update_cooling:
  "p_x (Player_update no_keys 1 ((Player_init 512 622)\<lparr>p_attack_cooldown := 5000\<rparr>)) = 512"
  "p_y (Player_update no_keys 1 ((Player_init 512 622)\<lparr>p_attack_cooldown := 5000\<rparr>)) = 622"
  "p_attack_cooldown (Player_update no_keys 1 ((Player_init 512 622)\<lparr>p_attack_cooldown := 5000\<rparr>))
     = 4000"
  "p_rect (Player_update no_keys 1 ((Player_init 512 622)\<lparr>p_attack_cooldown := 5000\<rparr>))
     = \<lparr>rect_x = 512, rect_y = 622, rect_width = 96, rect_height = 96\<rparr>"
  by (simp_all add: Player_update_def Let_def update_dash_timers_def handle_dash_input_def
        normal_movement_def handle_horizontal_def handle_jump_def apply_gravity_def
        update_position_def ground_collision_def keep_on_screen_def update_attack_cooldown_def
        Player_init_def no_keys_def constants_defs py_int_def)

lemma sample_enemy_rect:
  "e_rect (Enemy_update (512, 622) 1 (Enemy_init 520 622 1))
     = \<lparr>rect_x = 519, rect_y = 622, rect_width = 96, rect_height = 96\<rparr>"
  by (simp add: Enemy_update_def pursue_def settle_def Let_def Enemy_init_def constants_defs
        py_int_def)

theorem contact_damage_witness:
  "map_option p_health (player (fst (update no_keys sample_random 1
       (sample_scene\<lparr>enemies := [Enemy_init 520 622 1], combo_count := 3,
          combo_timer := 3000\<rparr>)))) = Some 99 \<and>
   combo_count (fst (update no_keys sample_random 1
       (sample_scene\<lparr>enemies := [Enemy_init 520 622 1], combo_count := 3,
          combo_timer := 3000\<rparr>))) = 0 \<and>
   map_option p_health (player (fst (update no_keys sample_random 1
       (sample_scene\<lparr>player := Some ((Player_init 512 622)\<lparr>p_attack_cooldown := 5000\<rparr>),
          enemies := [Enemy_init 520 622 1]\<rparr>)))) = Some 100"
proof -
  let ?P = "Player_init 512 622"
  let ?C = "?P\<lparr>p_attack_cooldown := 5000\<rparr>"
  let ?E = "Enemy_init 520 622 1"
  let ?s = "sample_scene\<lparr>enemies := [?E], combo_count := 3, combo_timer := 3000\<rparr>"
  let ?t = "sample_scene\<lparr>player := Some ?C, enemies := [?E]\<rparr>"
  let ?p = "Player_update no_keys 1 ?P"
  let ?c = "Player_update no_keys 1 ?C"
  have k: "no_keys\<lparr>K_SPACE := False\<rparr> = no_keys" "\<not> K_SPACE no_keys" "\<not> K_x no_keys"
    by (simp_all add: no_keys_def)
  have P: "?P\<lparr>p_health := 100\<rparr> = ?P" by (simp add: Player_init_def PLAYER_HEALTH_def)
  note sp = sample_player_update [of False 100, unfolded k(1) P]
  have full: "full_frame ?s" "full_frame ?t"
    by (simp_all add: full_frame_def sample_scene_def GameScene_init_def)
  have alive: "is_alive ?P" "is_alive ?C"
    by (simp_all add: is_alive_def Player_init_def PLAYER_HEALTH_def)
  have pl: "player (tick_effects 1 ?s) = Some ?P" "player (tick_effects 1 ?t) = Some ?C"
    by (simp_all add: sample_scene_def)
  have m1: "player (before_enemies no_keys sample_random 1 ?s) = Some ?p"
           "enemies (before_enemies no_keys sample_random 1 ?s) = [?E]"
    using player_phase_no_attack [OF pl(1) alive(1) k(2,3), of sample_random 1]
    by (simp_all add: before_enemies_def)
  have m2: "player (before_enemies no_keys sample_random 1 ?t) = Some ?c"
           "enemies (before_enemies no_keys sample_random 1 ?t) = [?E]"
    using player_phase_no_attack [OF pl(2) alive(2) k(2,3), of sample_random 1]
    by (simp_all add: before_enemies_def)
  have a1: "is_alive ?p" "is_alive ?c"
    using alive by (simp_all add: is_alive_def)
  have E: "enemy_is_alive ?E" by (simp add: enemy_is_alive_def Enemy_init_def)
  have t1: "\<exists>e\<in>set (enemies (before_enemies no_keys sample_random 1 ?s)). touches 1 ?p e"
    using E by (simp add: m1 touches_def sp sample_enemy_rect check_collision_def colliderect_def)
  have t2: "\<exists>e\<in>set (enemies (before_enemies no_keys sample_random 1 ?t)). touches 1 ?c e"
    using E
    by (simp add: m2 touches_def sample_player_update_cooling sample_enemy_rect
          check_collision_def colliderect_def)
  have h: "p_health ?p = 100" "p_health ?c = 100"
    by (simp_all add: Player_init_def PLAYER_HEALTH_def)
  have "player (fst (update no_keys sample_random 1 ?s))
          = Some (?p\<lparr>p_health := p_health ?p - 1, p_attack_cooldown := 1200\<rparr>) \<and>
        combo_count (fst (update no_keys sample_random 1 ?s)) = 0"
    using contact_damage [OF full(1) m1(1) a1(1) t1] sp(4,5) by simp
  moreover have "player (fst (update no_keys sample_random 1 ?t)) = Some ?c"
    using contact_damage [OF full(2) m2(1) a1(2) t2] sample_player_update_cooling(3) by simp
  ultimately show ?thesis using h by simp
qed

subsection \<open>The kill that heals\<close>

lemma dash_dust_player_arg [simp]:
  "particle_system (dash_dust rnd p (s\<lparr>player := x\<rparr>)) = particle_system (dash_dust rnd p s)"
  by (simp add: dash_dust_def)

lemma check_game_over_alive:
  "player s = Some p \<Longrightarrow> is_alive p \<Longrightarrow> check_game_over s = (s, None)"
  by (simp add: check_game_over_def)

text \<open>
  C3. A full frame starts with score 9 and the player at health 50 of 100; an attack key
  is held, the attack succeeds and \<open>enemy\<close>, with health 1, is the first live enemy the
  attack rectangle overlaps. At the end of that update the score is 10, the player's
  health is 60, the screen shake is 10, the hit stop is 3 frames, the combo count is one
  more than the combo timer left it and the combo timer is back at the combo timeout;
  the particles gained the blood burst, 20 red particles at the enemy's centre, and then
  the heal burst, 15 green particles at the player's position; and the kill appended one
  replacement enemy to the list before the enemy loop ran. The player is alive, so the
  frame ends neither the game nor with a save.
\<close>

theorem kill_triggers_heal:
  assumes "full_frame s0" "player s0 = Some p0"
    and "p_health p0 = 50" "p_max_health p0 = 100" "score s0 = 9"
    and "K_SPACE keys \<or> K_x keys"
    and "fst (attack (Player_update keys dt p0))"
    and "enemies s0 = pre @ enemy # post"
    and "\<forall>x\<in>set pre. \<not> attack_lands (Player_update keys dt p0) x"
    and "attack_lands (Player_update keys dt p0) enemy"
    and "e_health enemy = 1"
  shows "score (fst (update keys rnd dt s0)) = 10 \<and>
    player (fst (update keys rnd dt s0))
      = Some ((snd (attack (Player_update keys dt p0)))\<lparr>p_health := 60\<rparr>) \<and>
    screen_shake (fst (update keys rnd dt s0)) = 10 \<and>
    hit_stop_duration (fst (update keys rnd dt s0)) = 3 \<and>
    combo_count (fst (update keys rnd dt s0)) = combo_count (tick_effects dt s0) + 1 \<and>
    combo_timer (fst (update keys rnd dt s0)) = combo_timeout s0 \<and>
    particle_system (fst (update keys rnd dt s0))
      = particle_system (dash_dust rnd (Player_update keys dt p0) (tick_effects dt s0)) @
        emit (blood_draws rnd)
          (e_x enemy + real_of_int (rect_width (e_rect enemy) div 2))
          (e_y enemy + real_of_int (rect_height (e_rect enemy) div 2)) 20 RED 8 Blood @
        emit (heal_draws rnd) (p_x (Player_update keys dt p0)) (p_y (Player_update keys dt p0))
          15 GREEN 4 Dust \<and>
    length (emit (blood_draws rnd)
          (e_x enemy + real_of_int (rect_width (e_rect enemy) div 2))
          (e_y enemy + real_of_int (rect_height (e_rect enemy) div 2)) 20 RED 8 Blood) = 20 \<and>
    (\<forall>q\<in>set (emit (blood_draws rnd)
          (e_x enemy + real_of_int (rect_width (e_rect enemy) div 2))
          (e_y enemy + real_of_int (rect_height (e_rect enemy) div 2)) 20 RED 8 Blood).
       pt_color q = RED \<and>
       pt_x q = e_x enemy + real_of_int (rect_width (e_rect enemy) div 2) \<and>
       pt_y q = e_y enemy + real_of_int (rect_height (e_rect enemy) div 2)) \<and>
    length (emit (heal_draws rnd) (p_x (Player_update keys dt p0))
          (p_y (Player_update keys dt p0)) 15 GREEN 4 Dust) = 15 \<and>
    (\<forall>q\<in>set (emit (heal_draws rnd) (p_x (Player_update keys dt p0))
          (p_y (Player_update keys dt p0)) 15 GREEN 4 Dust).
       pt_color q = GREEN \<and>
       pt_x q = p_x (Player_update keys dt p0) \<and> pt_y q = p_y (Player_update keys dt p0)) \<and>
    enemies (before_enemies keys rnd dt s0)
      = pre @ enemy\<lparr>e_health := 0\<rparr> # post @
        [new_enemy (kill_spawn rnd) (before_enemies keys rnd dt s0)] \<and>
    \<not> game_over (fst (update keys rnd dt s0)) \<and>
    snd (update keys rnd dt s0) = None"
proof -
  let ?p1 = "Player_update keys dt p0"
  let ?p2 = "snd (attack ?p1)"
  let ?t = "tick_effects dt s0"
  let ?X = "(dash_dust rnd ?p1 (?t\<lparr>player := Some ?p1\<rparr>))\<lparr>player := Some ?p2\<rparr>"
  let ?m = "before_enemies keys rnd dt s0"
  let ?e = "enemy_phase rnd dt ?m"
  let ?B = "emit (blood_draws rnd)
          (e_x enemy + real_of_int (rect_width (e_rect enemy) div 2))
          (e_y enemy + real_of_int (rect_height (e_rect enemy) div 2)) 20 RED 8 Blood"
  let ?H = "emit (heal_draws rnd) (p_x ?p1) (p_y ?p1) 15 GREEN 4 Dust"
  have alive: "is_alive p0" using assms(3) by (simp add: is_alive_def)
  have pt: "player ?t = Some p0" and et: "enemies ?t = pre @ enemy # post"
    using assms(2,8) by simp_all
  have m: "?m = resolve_hit rnd ?p2 pre enemy post ?X"
    using player_phase_kill [OF pt alive assms(6,7) et assms(9,10,11), of rnd]
    by (simp add: before_enemies_def)
  note k = resolve_hit_kill [OF assms(11), of rnd ?p2 pre post ?X]
  have sX: "score ?X = 9" using assms(5) by simp
  have p2: "p_health ?p2 = 50" "p_max_health ?p2 = 100" "p_x ?p2 = p_x ?p1" "p_y ?p2 = p_y ?p1"
           "p_attack_cooldown ?p2 > 0"
    using assms(3,4,7)
    by (simp_all add: attack_def ATTACK_COOLDOWN_def split: if_splits)
  have m_score: "score ?m = 10" using k(1) sX m by simp
  have m_shake: "screen_shake ?m = 10" using k(2) m by simp
  have m_stop: "hit_stop_duration ?m = 3" using k(3) m by simp
  have m_combo: "combo_count ?m = combo_count ?t + 1" using k(4) m by simp
  have m_timer: "combo_timer ?m = combo_timeout s0" using k(5) m by simp
  have m_player: "player ?m = Some (?p2\<lparr>p_health := 60\<rparr>)"
    using k(6) sX p2 m by simp
  have m_parts: "particle_system ?m = particle_system (dash_dust rnd ?p1 ?t) @ ?B @ ?H"
    using k(7) sX p2 m by simp
  have m_enemies: "enemies ?m
      = pre @ enemy\<lparr>e_health := 0\<rparr> # post @ [new_enemy (kill_spawn rnd) ?m]"
    using k(8) m by simp
  have imm: "p_attack_cooldown (?p2\<lparr>p_health := 60\<rparr>) > 0 \<or> p_is_dashing (?p2\<lparr>p_health := 60\<rparr>)"
    using p2(5) by simp
  note i = enemy_phase_immune [OF m_player imm, of rnd dt]
  have live: "is_alive (?p2\<lparr>p_health := 60\<rparr>)" by (simp add: is_alive_def)
  have pp: "player (periodic_spawn rnd dt ?e) = Some (?p2\<lparr>p_health := 60\<rparr>)"
    using i(1) by simp
  have u: "update keys rnd dt s0 = (periodic_spawn rnd dt ?e, None)"
    using assms(1) check_game_over_alive [OF pp live] by (simp add: update_full_frame)
  have go: "\<not> game_over s0" using assms(1) by (simp add: full_frame_def)
  have state: "score (fst (update keys rnd dt s0)) = 10 \<and>
    player (fst (update keys rnd dt s0)) = Some (?p2\<lparr>p_health := 60\<rparr>) \<and>
    screen_shake (fst (update keys rnd dt s0)) = 10 \<and>
    hit_stop_duration (fst (update keys rnd dt s0)) = 3 \<and>
    combo_count (fst (update keys rnd dt s0)) = combo_count ?t + 1 \<and>
    combo_timer (fst (update keys rnd dt s0)) = combo_timeout s0 \<and>
    particle_system (fst (update keys rnd dt s0))
      = particle_system (dash_dust rnd ?p1 ?t) @ ?B @ ?H \<and>
    enemies ?m = pre @ enemy\<lparr>e_health := 0\<rparr> # post @ [new_enemy (kill_spawn rnd) ?m] \<and>
    \<not> game_over (fst (update keys rnd dt s0)) \<and>
    snd (update keys rnd dt s0) = None"
    using u i m_score m_shake m_stop m_combo m_timer m_parts m_enemies go by simp
  have blood: "length ?B = 20 \<and>
    (\<forall>q\<in>set ?B. pt_color q = RED \<and>
       pt_x q = e_x enemy + real_of_int (rect_width (e_rect enemy) div 2) \<and>
       pt_y q = e_y enemy + real_of_int (rect_height (e_rect enemy) div 2))"
    using emit_burst by blast
  have heal: "length ?H = 15 \<and>
    (\<forall>q\<in>set ?H. pt_color q = GREEN \<and> pt_x q = p_x ?p1 \<and> pt_y q = p_y ?p1)"
    using emit_burst by blast
  show ?thesis using state blood heal by blast
qed

theorem kill_triggers_heal_witness:
  "score (fst (update (no_keys\<lparr>K_SPACE := True\<rparr>) sample_random 1
     (sample_scene\<lparr>player := Some ((Player_init 512 622)\<lparr>p_health := 50\<rparr>),
        enemies := [Enemy_init 600 622 1, Enemy_init 600 622 1], score := 9\<rparr>))) = 10 \<and>
   map_option p_health (player (fst (update (no_keys\<lparr>K_SPACE := True\<rparr>) sample_random 1
     (sample_scene\<lparr>player := Some ((Player_init 512 622)\<lparr>p_health := 50\<rparr>),
        enemies := [Enemy_init 600 622 1, Enemy_init 600 622 1], score := 9\<rparr>)))) = Some 60 \<and>
   hit_stop_duration (fst (update (no_keys\<lparr>K_SPACE := True\<rparr>) sample_random 1
     (sample_scene\<lparr>player := Some ((Player_init 512 622)\<lparr>p_health := 50\<rparr>),
        enemies := [Enemy_init 600 622 1, Enemy_init 600 622 1], score := 9\<rparr>))) = 3 \<and>
   screen_shake (fst (update (no_keys\<lparr>K_SPACE := True\<rparr>) sample_random 1
     (sample_scene\<lparr>player := Some ((Player_init 512 622)\<lparr>p_health := 50\<rparr>),
        enemies := [Enemy_init 600 622 1, Enemy_init 600 622 1], score := 9\<rparr>))) = 10 \<and>
   combo_count (fst (update (no_keys\<lparr>K_SPACE := True\<rparr>) sample_random 1
     (sample_scene\<lparr>player := Some ((Player_init 512 622)\<lparr>p_health := 50\<rparr>),
        enemies := [Enemy_init 600 622 1, Enemy_init 600 622 1], score := 9\<rparr>))) = 1 \<and>
   length (particle_system (fst (update (no_keys\<lparr>K_SPACE := True\<rparr>) sample_random 1
     (sample_scene\<lparr>player := Some ((Player_init 512 622)\<lparr>p_health := 50\<rparr>),
        enemies := [Enemy_init 600 622 1, Enemy_init 600 622 1], score := 9\<rparr>)))) = 35 \<and>
   pt_color (last (particle_system (fst (update (no_keys\<lparr>K_SPACE := True\<rparr>) sample_random 1
     (sample_scene\<lparr>player := Some ((Player_init 512 622)\<lparr>p_health := 50\<rparr>),
        enemies := [Enemy_init 600 622 1, Enemy_init 600 622 1], score := 9\<rparr>))))) = GREEN"
proof -
  let ?k = "no_keys\<lparr>K_SPACE := True\<rparr>"
  let ?P = "(Player_init 512 622)\<lparr>p_health := 50\<rparr>"
  let ?E = "Enemy_init 600 622 1"
  let ?s = "sample_scene\<lparr>player := Some ?P, enemies := [?E, ?E], score := 9\<rparr>"
  let ?r = "fst (update ?k sample_random 1 ?s)"
  let ?p1 = "Player_update ?k 1 ?P"
  let ?B = "emit (blood_draws sample_random)
          (e_x ?E + real_of_int (rect_width (e_rect ?E) div 2))
          (e_y ?E + real_of_int (rect_height (e_rect ?E) div 2)) 20 RED 8 Blood"
  let ?H = "emit (heal_draws sample_random) (p_x ?p1) (p_y ?p1) 15 GREEN 4 Dust"
  have a: "full_frame ?s" by (simp add: full_frame_def sample_scene_def GameScene_init_def)
  have b: "player ?s = Some ?P" by simp
  have c: "p_health ?P = 50" "p_max_health ?P = 100"
    by (simp_all add: Player_init_def PLAYER_HEALTH_def)
  have d: "score ?s = 9" by simp
  have e: "K_SPACE ?k \<or> K_x ?k" by simp
  have f: "fst (attack ?p1)"
    using sample_player_update(4) [of True 50] by (simp add: attack_def)
  have g: "enemies ?s = [] @ ?E # [?E]" by simp
  have h: "\<forall>x\<in>set []. \<not> attack_lands ?p1 x" by simp
  have i: "attack_lands ?p1 ?E" using sample_attack_lands [of 50] .
  have j: "e_health ?E = 1" by (simp add: Enemy_init_def)
  note t = kill_triggers_heal [OF a b c d e f g h i j, of sample_random]
  have hp: "p_health ((snd (attack ?p1))\<lparr>p_health := 60\<rparr>) = 60" by simp
  have dust: "particle_system (dash_dust sample_random ?p1 (tick_effects 1 ?s)) = []"
    using sample_player_update(5) [of True 50]
    by (simp add: dash_dust_def tick_effects_def Let_def particles_update_def sample_scene_def
          GameScene_init_def)
  have combo: "combo_count (tick_effects 1 ?s) = 0"
    by (simp add: tick_effects_def Let_def sample_scene_def GameScene_init_def)
  have parts: "particle_system ?r = ?B @ ?H" using t dust by simp
  have lb: "length ?B = 20" and lh: "length ?H = 15"
    and gh: "\<forall>q\<in>set ?H. pt_color q = GREEN" using t by blast+
  have "?H \<noteq> []" using lh by auto
  then have "last (particle_system ?r) \<in> set ?H" using parts by simp
  then have green: "pt_color (last (particle_system ?r)) = GREEN" using gh by blast
  have len: "length (particle_system ?r) = 35" using parts lb lh by simp
  have basics: "score ?r = 10 \<and> map_option p_health (player ?r) = Some 60 \<and>
     hit_stop_duration ?r = 3 \<and> screen_shake ?r = 10 \<and> combo_count ?r = 1"
    using t hp combo by simp
  show ?thesis using basics len green by blast
qed

end
